theory Spec2Isabelle
  imports Main
begin

section \<open>Values carried by frames and request bodies\<close>

text \<open>
  The relay handler of \<^verbatim>\<open>server/routes.ts\<close> works on whatever \<^verbatim>\<open>JSON.parse\<close>
  returns, without any validation: the fields of a frame are JavaScript values of any
  JSON shape. A field that is missing reads as \<^verbatim>\<open>undefined\<close>.
  Numbers are modelled as integers (identifiers are integers; the rendering below is
  the one of \<^verbatim>\<open>Number.prototype.toString\<close> for safe integers, and \<open>JNum 0\<close> stands
  for both zeros); fractional numbers are outside the model.
  An object is the list of its members in source order; \<^verbatim>\<open>JSON.parse\<close> keeps the last
  of several members with one key.
\<close>

datatype jsval =
    JUndefined
  | JNull
  | JBool bool
  | JNum int
  | JStr string
  | JArr "jsval list"
  | JObj "(string \<times> jsval) list"

text \<open>Truthiness, as tested by \<^verbatim>\<open>if (userId)\<close>, \<^verbatim>\<open>senderId && ...\<close> and
  \<^verbatim>\<open>exchangeId || null\<close>.\<close>

fun truthy :: "jsval \<Rightarrow> bool" where
  "truthy JUndefined = False"
| "truthy JNull = False"
| "truthy (JBool b) = b"
| "truthy (JNum n) = (n \<noteq> 0)"
| "truthy (JStr s) = (s \<noteq> [])"
| "truthy (JArr xs) = True"
| "truthy (JObj kvs) = True"

text \<open>
  Property read \<^verbatim>\<open>v.k\<close> for the names the handlers read (\<^verbatim>\<open>type\<close>, \<^verbatim>\<open>userId\<close>,
  \<^verbatim>\<open>senderId\<close>, \<^verbatim>\<open>receiverId\<close>, \<^verbatim>\<open>content\<close>, \<^verbatim>\<open>exchangeId\<close>, \<^verbatim>\<open>status\<close>), none of
  which is found on a prototype: \<open>None\<close> is the TypeError of reading a property of
  \<^verbatim>\<open>null\<close> or \<^verbatim>\<open>undefined\<close>; any other value that has no such member gives
  \<^verbatim>\<open>undefined\<close>.
\<close>

fun js_get :: "jsval \<Rightarrow> string \<Rightarrow> jsval option" where
  "js_get JUndefined k = None"
| "js_get JNull k = None"
| "js_get (JObj kvs) k =
     (case map_of (rev kvs) k of None \<Rightarrow> Some JUndefined | Some v \<Rightarrow> Some v)"
| "js_get v k = Some JUndefined"

text \<open>Decimal rendering of an integer.\<close>

function dec_of_nat :: "nat \<Rightarrow> string" where
  "dec_of_nat n =
     (if n < 10 then [''0123456789'' ! n]
      else dec_of_nat (n div 10) @ [''0123456789'' ! (n mod 10)])"
  by pat_completeness auto
termination
  by (relation "measure (\<lambda>n. n)") auto

declare dec_of_nat.simps [simp del]

definition number_toString :: "int \<Rightarrow> string" where
  "number_toString n = (if n < 0 then CHR ''-'' # dec_of_nat (nat (- n)) else dec_of_nat (nat n))"

text \<open>
  The method call \<^verbatim>\<open>v.toString()\<close>. \<open>None\<close> is a TypeError: the receiver is
  \<^verbatim>\<open>null\<close> or \<^verbatim>\<open>undefined\<close>, or it is an object whose own member \<^verbatim>\<open>toString\<close>
  (a JSON value, never a function) hides the inherited method. An array joins the
  renderings of its elements with commas, \<^verbatim>\<open>null\<close> rendering as the empty string.
\<close>

fun js_toString :: "jsval \<Rightarrow> string option"
  and js_join :: "jsval list \<Rightarrow> string option" where
  "js_toString JUndefined = None"
| "js_toString JNull = None"
| "js_toString (JBool b) = Some (if b then ''true'' else ''false'')"
| "js_toString (JNum n) = Some (number_toString n)"
| "js_toString (JStr s) = Some s"
| "js_toString (JArr xs) = js_join xs"
| "js_toString (JObj kvs) =
     (if ''toString'' \<in> fst ` set kvs then None else Some ''[object Object]'')"
| "js_join [] = Some []"
| "js_join (x # xs) =
     (case (if x = JNull \<or> x = JUndefined then Some [] else js_toString x) of
        None \<Rightarrow> None
      | Some s \<Rightarrow>
          (if xs = [] then Some s
           else (case js_join xs of None \<Rightarrow> None | Some t \<Rightarrow> Some (s @ '','' @ t))))"

text \<open>
  The conversion to a string that a template literal makes (\<^verbatim>\<open>`from=${senderId}`\<close>):
  \<^verbatim>\<open>undefined\<close> and \<^verbatim>\<open>null\<close> have a rendering here; everything else is rendered as
  by \<^verbatim>\<open>toString\<close>, and an object that hides \<^verbatim>\<open>toString\<close> throws as well.
\<close>

fun js_String :: "jsval \<Rightarrow> string option" where
  "js_String JUndefined = Some ''undefined''"
| "js_String JNull = Some ''null''"
| "js_String v = js_toString v"

section \<open>The persistence gateway\<close>

text \<open>
  The tables \<^verbatim>\<open>exchanges\<close> and \<^verbatim>\<open>messages\<close> of the shared schema. A row holds what
  its typed columns hold: integers in the \<^verbatim>\<open>integer\<close> columns, a string in the
  \<^verbatim>\<open>text\<close> column. Timestamps are natural numbers.
\<close>

record exchange =
  exch_id :: int
  requesterId :: int
  providerId :: int
  requestedSkillId :: int
  offeredSkillId :: int
  status :: string
  createdAt :: "nat option"
  updatedAt :: "nat option"

record message =
  msg_id :: int
  senderId :: int
  receiverId :: int
  exchangeId :: "int option"
  content :: string
  read :: bool
  msg_createdAt :: "nat option"

text \<open>
  The value handed to \<^verbatim>\<open>createMessage\<close>. Its declared type is \<^verbatim>\<open>InsertMessage\<close>, but
  the relay passes the fields of the frame as they came.
\<close>

record insert_message =
  im_senderId :: jsval
  im_receiverId :: jsval
  im_content :: jsval
  im_exchangeId :: jsval

text \<open>
  The database behind \<^verbatim>\<open>DatabaseStorage\<close>: the two tables, the serial of
  \<^verbatim>\<open>messages.id\<close>, the server's clock (\<^verbatim>\<open>defaultNow()\<close>), and whether the server
  answers at all. A statement sent to a server that does not answer throws.
  The module \<^verbatim>\<open>./db\<close> and the driver behind it are not among the sources; what the
  driver binds for an array or an object is therefore a component of the database,
  \<open>driver_text\<close>, about which nothing is assumed.
\<close>

record database =
  messages :: "message list"
  messages_id_seq :: int
  exchanges :: "exchange list"
  clock :: nat
  online :: bool
  driver_text :: "jsval \<Rightarrow> string"

datatype db_error = Unavailable | InvalidInteger | InvalidText | NotNullViolation

text \<open>
  What an \<^verbatim>\<open>integer\<close> column reads from a string: optional blanks, an optional sign,
  decimal digits, optional blanks; the value has to fit 32 bits. (The prefixed and
  grouped literals that later versions of the server read as well are left out.)
\<close>

definition is_blank :: "char \<Rightarrow> bool" where
  "is_blank c = (c \<in> set [CHR '' '', CHR 0x09, CHR 0x0A, CHR 0x0B, CHR 0x0C, CHR 0x0D])"

definition is_digit :: "char \<Rightarrow> bool" where
  "is_digit c = (c \<in> set ''0123456789'')"

definition digits_value :: "string \<Rightarrow> int" where
  "digits_value ds = foldl (\<lambda>a c. 10 * a + (int (of_char c) - 48)) 0 ds"

definition int4_range :: "int \<Rightarrow> bool" where
  "int4_range n = (- 2147483648 \<le> n \<and> n \<le> 2147483647)"

definition int4_in :: "string \<Rightarrow> int option" where
  "int4_in s =
     (let t = rev (dropWhile is_blank (rev (dropWhile is_blank s)));
          neg = (t \<noteq> [] \<and> hd t = CHR ''-'');
          ds = (if t \<noteq> [] \<and> (hd t = CHR ''-'' \<or> hd t = CHR ''+'') then tl t else t);
          n = (if neg then - digits_value ds else digits_value ds)
      in if ds \<noteq> [] \<and> list_all is_digit ds \<and> int4_range n then Some n else None)"

text \<open>
  The value an \<^verbatim>\<open>integer\<close> column takes from a parameter that is not null: a number
  goes as itself, a string is read as above, anything else (a boolean, and the brace
  that the text of an array or an object starts with) is no integer.
\<close>

fun integer_column :: "jsval \<Rightarrow> int option" where
  "integer_column (JNum n) = (if int4_range n then Some n else None)"
| "integer_column (JStr s) = int4_in s"
| "integer_column v = None"

text \<open>
  The string a \<^verbatim>\<open>text\<close> column takes from a parameter that is not null: a string goes
  as itself, a safe integer and a boolean by their rendering, an array and an object by
  what the driver makes of them; so does a number beyond the safe integers, whose
  rendering is not modelled. A text with a zero byte is refused.
\<close>

definition safe_integer :: "int \<Rightarrow> bool" where
  "safe_integer n = (- 9007199254740991 \<le> n \<and> n \<le> 9007199254740991)"

fun text_column :: "(jsval \<Rightarrow> string) \<Rightarrow> jsval \<Rightarrow> string option" where
  "text_column drv JUndefined = None"
| "text_column drv JNull = None"
| "text_column drv (JStr s) = (if CHR 0x00 \<in> set s then None else Some s)"
| "text_column drv (JNum n) =
     (if safe_integer n then Some (number_toString n)
      else if CHR 0x00 \<in> set (drv (JNum n)) then None else Some (drv (JNum n)))"
| "text_column drv (JBool b) = Some (if b then ''true'' else ''false'')"
| "text_column drv v = (if CHR 0x00 \<in> set (drv v) then None else Some (drv v))"

definition is_null :: "jsval \<Rightarrow> bool" where
  "is_null v = (v = JNull \<or> v = JUndefined)"

text \<open>
  \<^verbatim>\<open>DatabaseStorage.createMessage\<close>:
  \<^verbatim>\<open>db.insert(messages).values({...messageData, read: false}).returning()\<close>.
  \<^verbatim>\<open>sender_id\<close>, \<^verbatim>\<open>receiver_id\<close> and \<^verbatim>\<open>content\<close> are \<^verbatim>\<open>notNull\<close>; \<^verbatim>\<open>exchange_id\<close>
  may be null. The statement fails in one of three ways. A server that does not answer
  leaves everything as it was. A parameter that its column cannot read is refused when
  the parameters are bound, before the statement runs. A null in a \<^verbatim>\<open>notNull\<close>
  column is found when the row has been formed, and by then the row has drawn its
  value of the serial, which is not given back. Otherwise the row is stored, with the
  next serial and the server's time, and returned.
\<close>

definition createMessage ::
  "insert_message \<Rightarrow> database \<Rightarrow> (db_error \<times> database) + (message \<times> database)" where
  "createMessage d db =
     (if \<not> online db then Inl (Unavailable, db)
      else if (\<not> is_null (im_senderId d) \<and> integer_column (im_senderId d) = None)
              \<or> (\<not> is_null (im_receiverId d) \<and> integer_column (im_receiverId d) = None)
              \<or> (\<not> is_null (im_exchangeId d) \<and> integer_column (im_exchangeId d) = None)
        then Inl (InvalidInteger, db)
      else if \<not> is_null (im_content d) \<and> text_column (driver_text db) (im_content d) = None
        then Inl (InvalidText, db)
      else
        (case (integer_column (im_senderId d), integer_column (im_receiverId d),
               text_column (driver_text db) (im_content d)) of
           (Some s, Some r, Some c) \<Rightarrow>
             (let m = \<lparr> msg_id = messages_id_seq db,
                        senderId = s,
                        receiverId = r,
                        exchangeId = integer_column (im_exchangeId d),
                        content = c,
                        read = False,
                        msg_createdAt = Some (clock db) \<rparr>
              in Inr (m, db\<lparr> messages := messages db @ [m],
                             messages_id_seq := messages_id_seq db + 1 \<rparr>))
         | _ \<Rightarrow> Inl (NotNullViolation, db\<lparr> messages_id_seq := messages_id_seq db + 1 \<rparr>)))"

text \<open>
  \<^verbatim>\<open>DatabaseStorage.getExchangeById\<close>: the first row of
  \<^verbatim>\<open>select ... where id = $1\<close>, or \<^verbatim>\<open>undefined\<close>.
\<close>

definition getExchangeById :: "int \<Rightarrow> database \<Rightarrow> db_error + exchange option" where
  "getExchangeById i db =
     (if \<not> online db then Inl Unavailable
      else Inr (case filter (\<lambda>e. exch_id e = i) (exchanges db) of
                  [] \<Rightarrow> None
                | e # _ \<Rightarrow> Some e))"

text \<open>
  \<^verbatim>\<open>DatabaseStorage.updateExchangeStatus\<close>:
  \<^verbatim>\<open>update exchanges set status = $1, updated_at = $2 where id = $3 returning *\<close>,
  of which the first returned row is the result. \<open>now\<close> is \<^verbatim>\<open>new Date()\<close>.
\<close>

definition updateExchangeStatus ::
  "nat \<Rightarrow> int \<Rightarrow> string \<Rightarrow> database \<Rightarrow> db_error + (exchange option \<times> database)" where
  "updateExchangeStatus now i s db =
     (if \<not> online db then Inl Unavailable
      else
        (let rows = map (\<lambda>e. if exch_id e = i then e\<lparr> status := s, updatedAt := Some now \<rparr> else e)
                        (exchanges db)
         in Inr (case filter (\<lambda>e. exch_id e = i) rows of [] \<Rightarrow> None | e # _ \<Rightarrow> Some e,
                 db\<lparr> exchanges := rows \<rparr>)))"

text \<open>
  The in-memory implementation of the same interface (\<^verbatim>\<open>MemStorage\<close>), of which only
  the map of exchanges matters here.
\<close>

record mem_storage =
  mem_exchanges :: "int \<rightharpoonup> exchange"

definition MemStorage_getExchangeById :: "int \<Rightarrow> mem_storage \<Rightarrow> exchange option" where
  "MemStorage_getExchangeById i m = mem_exchanges m i"

definition MemStorage_updateExchangeStatus ::
  "nat \<Rightarrow> int \<Rightarrow> string \<Rightarrow> mem_storage \<Rightarrow> exchange option \<times> mem_storage" where
  "MemStorage_updateExchangeStatus now i s m =
     (case MemStorage_getExchangeById i m of
        None \<Rightarrow> (None, m)
      | Some e \<Rightarrow>
          (let updatedExchange = e\<lparr> status := s, updatedAt := Some now \<rparr>
           in (Some updatedExchange,
               m\<lparr> mem_exchanges := (mem_exchanges m)(i \<mapsto> updatedExchange) \<rparr>)))"

section \<open>The relay\<close>

text \<open>
  A connection is known by its socket. The state of the relay: the map \<^verbatim>\<open>clients\<close>
  from user keys to sockets, the variable \<^verbatim>\<open>clientId\<close> that each connection's
  handlers close over, the frames sent on each socket so far, the sockets that are
  open, and the storage.

  \<open>on_message\<close> runs a handler from its first to its last statement without another
  handler in between; the one suspension, at \<^verbatim>\<open>await storage.createMessage\<close>, is where
  \<open>chat_deliver\<close> starts, so that what follows it can be stated for any state it resumes
  in. \<^verbatim>\<open>ws.send\<close> always hands the frame to the socket.
\<close>

type_synonym ws = nat

datatype frame =
    SystemFrame string "int option"
  | MessageFrame message
  | ErrorFrame string

record relay =
  clients :: "string \<rightharpoonup> ws"
  clientId :: "ws \<Rightarrow> string"
  sent :: "ws \<Rightarrow> frame list"
  open_sockets :: "ws set"
  storage :: database

definition send :: "ws \<Rightarrow> frame \<Rightarrow> relay \<Rightarrow> relay" where
  "send h f st = st\<lparr> sent := (sent st)(h := sent st h @ [f]) \<rparr>"

definition clients_set :: "string \<Rightarrow> ws \<Rightarrow> relay \<Rightarrow> relay" where
  "clients_set k h st = st\<lparr> clients := (clients st)(k \<mapsto> h) \<rparr>"

definition clients_delete :: "string \<Rightarrow> relay \<Rightarrow> relay" where
  "clients_delete k st = st\<lparr> clients := (clients st)(k := None) \<rparr>"

text \<open>The state before any connection, over a given database.\<close>

definition initial :: "database \<Rightarrow> relay" where
  "initial db =
     \<lparr> clients = Map.empty, clientId = (\<lambda>_. ''unknown''), sent = (\<lambda>_. []),
       open_sockets = {}, storage = db \<rparr>"

text \<open>\<^verbatim>\<open>wss.on("connection")\<close>: \<^verbatim>\<open>clientId\<close> starts as \<^verbatim>\<open>"unknown"\<close>; a welcome
  frame is sent.\<close>

definition on_connection :: "ws \<Rightarrow> relay \<Rightarrow> relay" where
  "on_connection h st =
     send h (SystemFrame ''Connected to SkillSwap WebSocket server'' None)
       (st\<lparr> clientId := (clientId st)(h := ''unknown''),
            open_sockets := insert h (open_sockets st) \<rparr>)"

text \<open>
  The body of the \<^verbatim>\<open>try\<close> block either runs to its end or throws; what it did before
  throwing stays done.
\<close>

datatype outcome = Done relay | Thrown relay

text \<open>The branch \<^verbatim>\<open>parsedMessage.type === "identify"\<close>.\<close>

definition identify_frame :: "ws \<Rightarrow> jsval \<Rightarrow> relay \<Rightarrow> outcome" where
  "identify_frame h userId st =
     (if truthy userId then
        (let st1 = (if clientId st h \<noteq> ''unknown'' then clients_delete (clientId st h) st
                    else st)
         in case js_toString userId of
              None \<Rightarrow> Thrown st1
            | Some s \<Rightarrow>
                Done (send h (SystemFrame ''Identification successful'' None)
                        (clients_set s h (st1\<lparr> clientId := (clientId st1)(h := s) \<rparr>))))
      else Done st)"

text \<open>
  What the chat branch does once \<^verbatim>\<open>await storage.createMessage(...)\<close> has returned
  \<^verbatim>\<open>newMessage\<close>: the confirmation to the sender, then the push to the socket that
  \<^verbatim>\<open>clients\<close> holds for the receiver at that moment.
\<close>

definition chat_deliver :: "ws \<Rightarrow> jsval \<Rightarrow> message \<Rightarrow> relay \<Rightarrow> outcome" where
  "chat_deliver h receiver newMessage st =
     (let st1 = send h (SystemFrame ''Message sent successfully'' (Some (msg_id newMessage))) st
      in case js_toString receiver of
           None \<Rightarrow> Thrown st1
         | Some k \<Rightarrow>
             (case clients st1 k of
                Some r \<Rightarrow> Done (send r (MessageFrame newMessage) st1)
              | None \<Rightarrow> Done st1))"

text \<open>
  The branch \<^verbatim>\<open>parsedMessage.type === "chat"\<close>. Its first statement after the
  destructuring logs \<^verbatim>\<open>`Chat message: from=${senderId} to=${receiverId}`\<close>, which throws
  for a value that has no rendering.
\<close>

definition chat_frame ::
  "ws \<Rightarrow> jsval \<Rightarrow> jsval \<Rightarrow> jsval \<Rightarrow> jsval \<Rightarrow> relay \<Rightarrow> outcome" where
  "chat_frame h sender receiver cont exch st =
     (if js_String sender = None \<or> js_String receiver = None then Thrown st
      else if \<not> truthy sender then
        Done (send h (ErrorFrame ''Sender ID doesn't match your identity'') st)
      else case js_toString sender of
        None \<Rightarrow> Thrown st
      | Some s \<Rightarrow>
          if s = clientId st h then
            (case createMessage
                    \<lparr> im_senderId = sender, im_receiverId = receiver, im_content = cont,
                      im_exchangeId = (if truthy exch then exch else JNull) \<rparr>
                    (storage st) of
               Inl (e, db') \<Rightarrow> Thrown (st\<lparr> storage := db' \<rparr>)
             | Inr (newMessage, db') \<Rightarrow> chat_deliver h receiver newMessage (st\<lparr> storage := db' \<rparr>))
          else Done (send h (ErrorFrame ''Sender ID doesn't match your identity'') st))"

text \<open>
  The body of the \<^verbatim>\<open>try\<close> block of \<^verbatim>\<open>ws.on("message")\<close>. The payload is what
  \<^verbatim>\<open>JSON.parse\<close> made of it, \<open>None\<close> when it threw. A type other than
  \<^verbatim>\<open>"identify"\<close> and \<^verbatim>\<open>"chat"\<close> matches no branch.
\<close>

definition try_body :: "ws \<Rightarrow> jsval option \<Rightarrow> relay \<Rightarrow> outcome" where
  "try_body h payload st =
     (case payload of
        None \<Rightarrow> Thrown st
      | Some parsedMessage \<Rightarrow>
          (case js_get parsedMessage ''type'' of
             None \<Rightarrow> Thrown st
           | Some t \<Rightarrow>
               if t = JStr ''identify'' then
                 (case js_get parsedMessage ''userId'' of
                    None \<Rightarrow> Thrown st
                  | Some userId \<Rightarrow> identify_frame h userId st)
               else if t = JStr ''chat'' then
                 (case (js_get parsedMessage ''senderId'', js_get parsedMessage ''receiverId'',
                        js_get parsedMessage ''content'', js_get parsedMessage ''exchangeId'') of
                    (Some sender, Some receiver, Some cont, Some exch) \<Rightarrow>
                      chat_frame h sender receiver cont exch st
                  | _ \<Rightarrow> Thrown st)
               else Done st))"

text \<open>\<^verbatim>\<open>ws.on("message")\<close>: the \<^verbatim>\<open>catch\<close> block answers any exception with an error
  frame.\<close>

definition on_message :: "ws \<Rightarrow> jsval option \<Rightarrow> relay \<Rightarrow> relay" where
  "on_message h payload st =
     (case try_body h payload st of
        Done st' \<Rightarrow> st'
      | Thrown st' \<Rightarrow> send h (ErrorFrame ''Failed to process message'') st')"

text \<open>\<^verbatim>\<open>ws.on("close")\<close>: \<^verbatim>\<open>clients.delete(clientId)\<close>, whatever socket the entry
  holds.\<close>

definition on_close :: "ws \<Rightarrow> relay \<Rightarrow> relay" where
  "on_close h st = clients_delete (clientId st h) (st\<lparr> open_sockets := open_sockets st - {h} \<rparr>)"

datatype event = Connection ws | Message ws "jsval option" | Close ws

fun step :: "event \<Rightarrow> relay \<Rightarrow> relay" where
  "step (Connection h) st = on_connection h st"
| "step (Message h payload) st = on_message h payload st"
| "step (Close h) st = on_close h st"

definition run :: "event list \<Rightarrow> relay \<Rightarrow> relay" where
  "run evs st = fold step evs st"

text \<open>The frames a client sends, as \<^verbatim>\<open>JSON.parse\<close> returns them.\<close>

definition identify :: "jsval \<Rightarrow> jsval" where
  "identify userId = JObj [(''type'', JStr ''identify''), (''userId'', userId)]"

definition chat :: "jsval \<Rightarrow> jsval \<Rightarrow> jsval \<Rightarrow> jsval \<Rightarrow> jsval" where
  "chat sender receiver cont exch =
     JObj [(''type'', JStr ''chat''), (''senderId'', sender), (''receiverId'', receiver),
           (''content'', cont), (''exchangeId'', exch)]"

text \<open>The state in which the body of the \<^verbatim>\<open>try\<close> block ended, however it ended.\<close>

fun final :: "outcome \<Rightarrow> relay" where
  "final (Done st) = st"
| "final (Thrown st) = st"

subsection \<open>The registry as the specification describes it\<close>

text \<open>
  The specification speaks of three operations: \<open>register(userId, handle)\<close>,
  \<open>unregister(userId)\<close> and \<open>lookup(userId)\<close>, and says which of them an event makes:
  an identify frame registers its connection under the user it names, after removing
  the registration this connection made before; a close unregisters the user its
  connection identified with, and nothing when it never identified. A new connection
  is unidentified. The definitions below follow these words; they do not look at the
  relay's state.
\<close>

datatype registry_op = Register string ws | Unregister string

text \<open>The user that an operation on the registry is about.\<close>

fun op_user :: "registry_op \<Rightarrow> string" where
  "op_user (Register u h) = u"
| "op_user (Unregister u) = u"

text \<open>The lookup as the specification words it: the handle of the most recent
  \<open>Register\<close> for the user, absent when the most recent operation for the user is an
  \<open>Unregister\<close> or there is none.\<close>

definition lookup_spec :: "registry_op list \<Rightarrow> string \<Rightarrow> ws option" where
  "lookup_spec ops u =
     (case rev (filter (\<lambda>x. op_user x = u) ops) of
        [] \<Rightarrow> None
      | Register _ h # _ \<Rightarrow> Some h
      | Unregister _ # _ \<Rightarrow> None)"

text \<open>The \<^verbatim>\<open>userId\<close> of an event that is an identify frame.\<close>

fun identify_userId :: "event \<Rightarrow> jsval option" where
  "identify_userId (Message h (Some p)) =
     (if js_get p ''type'' = Some (JStr ''identify'') then js_get p ''userId'' else None)"
| "identify_userId ev = None"

text \<open>
  The operations that an event makes, given the user each connection has identified
  with so far. An identify frame that names no user (a falsy \<^verbatim>\<open>userId\<close>) or a user
  without a rendering makes none.
\<close>

fun spec_step ::
  "event \<Rightarrow> (ws \<rightharpoonup> string) \<times> registry_op list \<Rightarrow> (ws \<rightharpoonup> string) \<times> registry_op list" where
  "spec_step (Connection h) (ident, ops) = (ident(h := None), ops)"
| "spec_step (Close h) (ident, ops) =
     (case ident h of
        None \<Rightarrow> (ident, ops)
      | Some old \<Rightarrow> (ident, ops @ [Unregister old]))"
| "spec_step (Message h payload) (ident, ops) =
     (case identify_userId (Message h payload) of
        None \<Rightarrow> (ident, ops)
      | Some userId \<Rightarrow>
          (if truthy userId then
             (case js_toString userId of
                None \<Rightarrow> (ident, ops)
              | Some u \<Rightarrow>
                  (ident(h \<mapsto> u),
                   ops @ (case ident h of None \<Rightarrow> [] | Some old \<Rightarrow> [Unregister old])
                       @ [Register u h]))
           else (ident, ops)))"

definition spec_ops :: "event list \<Rightarrow> registry_op list" where
  "spec_ops evs = snd (fold spec_step evs (Map.empty, []))"

text \<open>
  The relay keeps \<^verbatim>\<open>"unknown"\<close> in \<^verbatim>\<open>clientId\<close> for a connection that has not
  identified, so a user whose rendering is that very string cannot be told from no
  user. An identify frame is plain when it names no user, or a user with a rendering
  other than \<^verbatim>\<open>"unknown"\<close>; the frames of the interface, whose \<^verbatim>\<open>userId\<close> is a
  number, are plain.
\<close>

definition userId_plain :: "jsval \<Rightarrow> bool" where
  "userId_plain userId =
     (\<not> truthy userId
      \<or> (case js_toString userId of None \<Rightarrow> False | Some u \<Rightarrow> u \<noteq> ''unknown''))"

definition plain_event :: "event \<Rightarrow> bool" where
  "plain_event ev = (case identify_userId ev of None \<Rightarrow> True | Some userId \<Rightarrow> userId_plain userId)"

text \<open>
  How the state of the relay stands to the specification's: \<^verbatim>\<open>clients\<close> is the lookup,
  \<^verbatim>\<open>clientId\<close> is the user identified with, and \<^verbatim>\<open>"unknown"\<close> is nobody and
  registered for nobody.
\<close>

definition registry_inv :: "relay \<Rightarrow> (ws \<rightharpoonup> string) \<times> registry_op list \<Rightarrow> bool" where
  "registry_inv st sp =
     (clients st = lookup_spec (snd sp)
      \<and> clientId st = (\<lambda>h. case fst sp h of None \<Rightarrow> ''unknown'' | Some u \<Rightarrow> u)
      \<and> ''unknown'' \<notin> ran (fst sp)
      \<and> lookup_spec (snd sp) ''unknown'' = None)"

section \<open>The route that changes the status of an exchange\<close>

text \<open>
  \<^verbatim>\<open>app.patch("/api/exchanges/:id/status")\<close>. Of the request: the session's user
  (\<open>None\<close> when \<^verbatim>\<open>req.isAuthenticated()\<close> is false), \<^verbatim>\<open>Number(req.params.id)\<close> (an
  integer here), and the parsed body. The answer is a status code with a message or
  with the JSON of \<^verbatim>\<open>updatedExchange\<close>.
\<close>

record request =
  user :: "int option"
  params_id :: int
  body :: jsval

datatype json_body = Msg string | ExchangeJson "exchange option"

type_synonym response = "nat \<times> json_body"

definition valid_statuses :: "string list" where
  "valid_statuses = [''pending'', ''accepted'', ''declined'', ''completed'']"

definition patch_exchange_status ::
  "nat \<Rightarrow> request \<Rightarrow> database \<Rightarrow> response \<times> database" where
  "patch_exchange_status now req db =
     (case user req of
        None \<Rightarrow> ((401, Msg ''Unauthorized''), db)
      | Some uid \<Rightarrow>
          (case getExchangeById (params_id req) db of
             Inl e \<Rightarrow> ((400, Msg ''Failed to update exchange status''), db)
           | Inr None \<Rightarrow> ((404, Msg ''Exchange not found''), db)
           | Inr (Some exchange) \<Rightarrow>
               (case js_get (body req) ''status'' of
                  None \<Rightarrow> ((400, Msg ''Failed to update exchange status''), db)
                | Some (JStr s) \<Rightarrow>
                    if s \<notin> set valid_statuses then ((400, Msg ''Invalid status''), db)
                    else if (s = ''accepted'' \<or> s = ''declined'') \<and> providerId exchange \<noteq> uid
                      then ((403, Msg ''Only the provider can accept or decline exchanges''), db)
                    else if s = ''completed'' \<and> requesterId exchange \<noteq> uid
                            \<and> providerId exchange \<noteq> uid
                      then ((403, Msg ''Only participants can mark exchange as completed''), db)
                    else
                      (case updateExchangeStatus now (params_id req) s db of
                         Inl e \<Rightarrow> ((400, Msg ''Failed to update exchange status''), db)
                       | Inr (updatedExchange, db') \<Rightarrow> ((200, ExchangeJson updatedExchange), db'))
                | Some v \<Rightarrow> ((400, Msg ''Invalid status''), db))))"

section \<open>Sample data\<close>

text \<open>A database with empty tables that answers; its driver makes \<^verbatim>\<open>{}\<close> of every array
  and object.\<close>

definition empty_db :: database where
  "empty_db = \<lparr> messages = [], messages_id_seq = 1, exchanges = [], clock = 100, online = True,
                driver_text = (\<lambda>v. ''{}'') \<rparr>"

text \<open>Two open connections, identified as the users 10 and 11, over the empty database.\<close>

definition two_users :: relay where
  "two_users = run [Connection 1, Connection 2, Message 1 (Some (identify (JNum 10))),
                    Message 2 (Some (identify (JNum 11)))] (initial empty_db)"

text \<open>An exchange between requester 3 and provider 2, in a given status.\<close>

definition sample_exchange :: "string \<Rightarrow> exchange" where
  "sample_exchange s =
     \<lparr> exch_id = 7, requesterId = 3, providerId = 2, requestedSkillId = 20, offeredSkillId = 30,
       status = s, createdAt = Some 50, updatedAt = None \<rparr>"

text \<open>The database that holds this one exchange.\<close>

definition exchange_db :: "string \<Rightarrow> database" where
  "exchange_db s = empty_db\<lparr> exchanges := [sample_exchange s] \<rparr>"

text \<open>A request of user \<open>uid\<close> to set the status of exchange 7 to \<open>v\<close>.\<close>

definition status_request :: "int \<Rightarrow> jsval \<Rightarrow> request" where
  "status_request uid v = \<lparr> user = Some uid, params_id = 7, body = JObj [(''status'', v)] \<rparr>"

text \<open>The row that the first chat frame from user 10 to user 11 creates in the empty database.\<close>

definition hello_message :: message where
  "hello_message =
     \<lparr> msg_id = 1, senderId = 10, receiverId = 11, exchangeId = None,
       content = ''hi'', read = False, msg_createdAt = Some 100 \<rparr>"

section \<open>Properties of values and of the storage\<close>

lemma dec_of_nat_last: "dec_of_nat n \<noteq> [] \<and> last (dec_of_nat n) \<in> set ''0123456789''"
proof -
  have lt: "n mod 10 < length ''0123456789''" by simp
  show ?thesis
  proof (cases "n < 10")
    case True
    then have "n < length ''0123456789''" by simp
    then have "''0123456789'' ! n \<in> set ''0123456789''" by (rule nth_mem)
    with True show ?thesis by (subst (1 2) dec_of_nat.simps) simp
  next
    case False
    from lt have "''0123456789'' ! (n mod 10) \<in> set ''0123456789''" by (rule nth_mem)
    with False show ?thesis by (subst (1 2) dec_of_nat.simps) simp
  qed
qed

lemma number_toString_not_unknown: "number_toString n \<noteq> ''unknown''"
proof
  assume eq: "number_toString n = ''unknown''"
  show False
  proof (cases "n < 0")
    case True
    with eq show False by (simp add: number_toString_def)
  next
    case False
    with eq have "dec_of_nat (nat n) = ''unknown''" by (simp add: number_toString_def)
    with dec_of_nat_last [of "nat n"] show False by simp
  qed
qed

lemma dec_of_nat_digits: "set (dec_of_nat n) \<subseteq> set ''0123456789''"
proof (induction n rule: dec_of_nat.induct)
  case (1 n)
  show ?case
  proof (cases "n < 10")
    case True
    then have "n < length ''0123456789''" by simp
    then have "''0123456789'' ! n \<in> set ''0123456789''" by (rule nth_mem)
    with True show ?thesis by (subst dec_of_nat.simps) simp
  next
    case False
    have "n mod 10 < length ''0123456789''" by simp
    then have "''0123456789'' ! (n mod 10) \<in> set ''0123456789''" by (rule nth_mem)
    with False 1 show ?thesis by (subst dec_of_nat.simps) simp
  qed
qed

lemma digit_inj:
  assumes "a < 10" and "b < 10" and "''0123456789'' ! a = ''0123456789'' ! b"
  shows "a = b"
proof -
  have d: "distinct ''0123456789''" by simp
  from assms(1,2) have "a < length ''0123456789''" "b < length ''0123456789''" by simp_all
  with d assms(3) show ?thesis by (simp add: nth_eq_iff_index_eq)
qed

lemma dec_of_nat_inj: "dec_of_nat n = dec_of_nat m \<Longrightarrow> n = m"
proof (induction n arbitrary: m rule: dec_of_nat.induct)
  case (1 n)
  note ne = dec_of_nat_last
  show ?case
  proof (cases "n < 10")
    case n: True
    show ?thesis
    proof (cases "m < 10")
      case True
      with n "1.prems" have "''0123456789'' ! n = ''0123456789'' ! m"
        by (simp add: dec_of_nat.simps [of n] dec_of_nat.simps [of m])
      with n True show ?thesis by (rule digit_inj)
    next
      case False
      with n "1.prems" have "dec_of_nat (m div 10) = []"
        by (simp add: dec_of_nat.simps [of n] dec_of_nat.simps [of m])
      with ne [of "m div 10"] show ?thesis by simp
    qed
  next
    case n: False
    show ?thesis
    proof (cases "m < 10")
      case True
      with n "1.prems" have "dec_of_nat (n div 10) = []"
        by (simp add: dec_of_nat.simps [of n] dec_of_nat.simps [of m])
      with ne [of "n div 10"] show ?thesis by simp
    next
      case False
      with n "1.prems" have eq: "dec_of_nat (n div 10) = dec_of_nat (m div 10)"
        and d: "''0123456789'' ! (n mod 10) = ''0123456789'' ! (m mod 10)"
        by (simp_all add: dec_of_nat.simps [of n] dec_of_nat.simps [of m])
      from "1.IH" [OF n eq] have q: "n div 10 = m div 10" .
      have "n mod 10 < 10" "m mod 10 < 10" by simp_all
      from digit_inj [OF this d] have r: "n mod 10 = m mod 10" .
      have "n = 10 * (n div 10) + n mod 10" by simp
      also have "\<dots> = 10 * (m div 10) + m mod 10" using q r by simp
      also have "\<dots> = m" by simp
      finally show ?thesis .
    qed
  qed
qed

lemma number_toString_inj: "number_toString n = number_toString m \<Longrightarrow> n = m"
proof -
  assume eq: "number_toString n = number_toString m"
  have minus: "\<And>k. CHR ''-'' \<notin> set (dec_of_nat k)"
    using dec_of_nat_digits by fastforce
  consider "n < 0" "m < 0" | "n < 0" "\<not> m < 0" | "\<not> n < 0" "m < 0" | "\<not> n < 0" "\<not> m < 0"
    by blast
  then show "n = m"
  proof cases
    case 1
    with eq have "dec_of_nat (nat (- n)) = dec_of_nat (nat (- m))"
      by (simp add: number_toString_def)
    then have "nat (- n) = nat (- m)" by (rule dec_of_nat_inj)
    with 1 show ?thesis by simp
  next
    case 2
    with eq have "CHR ''-'' # dec_of_nat (nat (- n)) = dec_of_nat (nat m)"
      by (simp add: number_toString_def)
    then have "CHR ''-'' \<in> set (dec_of_nat (nat m))" by (metis list.set_intros(1))
    with minus show ?thesis by simp
  next
    case 3
    with eq have "dec_of_nat (nat n) = CHR ''-'' # dec_of_nat (nat (- m))"
      by (simp add: number_toString_def)
    then have "CHR ''-'' \<in> set (dec_of_nat (nat n))" by (metis list.set_intros(1))
    with minus show ?thesis by simp
  next
    case 4
    with eq have "dec_of_nat (nat n) = dec_of_nat (nat m)"
      by (simp add: number_toString_def)
    then have "nat n = nat m" by (rule dec_of_nat_inj)
    with 4 show ?thesis by simp
  qed
qed

lemma sender_number_differs:
  assumes "clientId st h = number_toString u" and "n \<noteq> u"
  shows "js_toString (JNum n) \<noteq> Some (clientId st h)"
  using assms by (auto dest: number_toString_inj)

lemma int4_in_unknown: "int4_in ''unknown'' = None"
  by code_simp

lemma integer_column_not_unknown:
  "js_toString v = Some ''unknown'' \<Longrightarrow> integer_column v = None"
  by (cases v) (auto simp: number_toString_not_unknown int4_in_unknown)

lemma integer_column_toString:
  "integer_column v = Some n \<Longrightarrow> \<exists>s. js_toString v = Some s"
  by (cases v) auto

lemma js_String_None_iff: "js_String v = None \<longleftrightarrow> js_toString v = None \<and> \<not> is_null v"
  by (cases v) (simp_all add: is_null_def)

lemma createMessage_unknown_sender:
  assumes "js_toString (im_senderId d) = Some ''unknown''"
  shows "\<exists>e. createMessage d db = Inl (e, db)"
proof -
  from assms have "\<not> is_null (im_senderId d)" by (auto simp: is_null_def)
  moreover from assms have "integer_column (im_senderId d) = None"
    by (rule integer_column_not_unknown)
  ultimately show ?thesis by (simp add: createMessage_def)
qed

lemma createMessage_Inl:
  assumes "createMessage d db = Inl (e, db')"
  shows "db' = db\<lparr> messages_id_seq := messages_id_seq db' \<rparr>"
  using assms
  by (auto simp: createMessage_def Let_def split: if_splits option.splits)

lemma createMessage_Inr:
  assumes "createMessage d db = Inr (m, db')"
  shows "db' = db\<lparr> messages := messages db @ [m], messages_id_seq := messages_id_seq db + 1 \<rparr>"
    and "m = \<lparr> msg_id = messages_id_seq db, senderId = senderId m,
               receiverId = receiverId m, exchangeId = integer_column (im_exchangeId d),
               content = content m, read = False, msg_createdAt = Some (clock db) \<rparr>"
    and "integer_column (im_senderId d) = Some (senderId m)"
    and "integer_column (im_receiverId d) = Some (receiverId m)"
    and "text_column (driver_text db) (im_content d) = Some (content m)"
    and "\<not> is_null (im_content d)"
    and "\<exists>k. js_toString (im_receiverId d) = Some k"
  using assms
  by (auto simp: createMessage_def Let_def is_null_def
      split: if_splits option.splits dest: integer_column_toString)

lemma createMessage_succeeds:
  assumes "online db"
    and "integer_column (im_senderId d) = Some s"
    and "integer_column (im_receiverId d) = Some r"
    and "text_column (driver_text db) (im_content d) = Some c"
    and "is_null (im_exchangeId d) \<or> integer_column (im_exchangeId d) \<noteq> None"
  shows "createMessage d db =
           Inr (\<lparr> msg_id = messages_id_seq db, senderId = s, receiverId = r,
                  exchangeId = integer_column (im_exchangeId d), content = c, read = False,
                  msg_createdAt = Some (clock db) \<rparr>,
                db\<lparr> messages := messages db
                        @ [\<lparr> msg_id = messages_id_seq db, senderId = s, receiverId = r,
                             exchangeId = integer_column (im_exchangeId d), content = c,
                             read = False, msg_createdAt = Some (clock db) \<rparr>],
                    messages_id_seq := messages_id_seq db + 1 \<rparr>)"
  using assms by (auto simp: createMessage_def Let_def)

section \<open>The relay handler\<close>

lemma open_sockets_send [simp]: "open_sockets (send h f st) = open_sockets st"
  by (simp add: send_def)

lemma open_sockets_clients_set [simp]: "open_sockets (clients_set k h st) = open_sockets st"
  by (simp add: clients_set_def)

lemma open_sockets_clients_delete [simp]: "open_sockets (clients_delete k st) = open_sockets st"
  by (simp add: clients_delete_def)

lemma open_sockets_identify_frame:
  "open_sockets (final (identify_frame h u st)) = open_sockets st"
  by (simp add: identify_frame_def Let_def split: option.splits)

lemma open_sockets_chat_frame:
  "open_sockets (final (chat_frame h a b c d st)) = open_sockets st"
  by (simp add: chat_frame_def chat_deliver_def Let_def split: option.splits sum.splits prod.splits)

lemma open_sockets_try_body:
  "open_sockets (final (try_body h payload st)) = open_sockets st"
  by (simp add: try_body_def open_sockets_identify_frame open_sockets_chat_frame
      split: option.splits)

lemma on_message_open_sockets: "open_sockets (on_message h payload st) = open_sockets st"
  using open_sockets_try_body [of h payload st]
  by (cases "try_body h payload st") (simp_all add: on_message_def)

lemma js_get_defined: "js_get p k = Some t \<Longrightarrow> \<exists>v. js_get p k' = Some v"
  by (cases p) (auto split: option.splits)

lemma try_body_chat:
  assumes "js_get p ''type'' = Some (JStr ''chat'')"
    and "js_get p ''senderId'' = Some a" and "js_get p ''receiverId'' = Some b"
    and "js_get p ''content'' = Some c" and "js_get p ''exchangeId'' = Some d"
  shows "try_body h (Some p) st = chat_frame h a b c d st"
  using assms by (simp add: try_body_def)

lemma try_body_identify:
  assumes "js_get p ''type'' = Some (JStr ''identify'')" and "js_get p ''userId'' = Some u"
  shows "try_body h (Some p) st = identify_frame h u st"
  using assms by (simp add: try_body_def)

lemma identify_fixes_clientId:
  assumes "js_get p ''type'' = Some (JStr ''identify'')" and "js_get p ''userId'' = Some userId"
    and "truthy userId" and "js_toString userId = Some u"
  shows "clientId (on_message h (Some p) st) h = u"
    and "clients (on_message h (Some p) st) u = Some h"
  using assms
  by (simp_all add: on_message_def try_body_identify identify_frame_def Let_def send_def
      clients_set_def clients_delete_def)

text \<open>
  Claim C10. An identify frame whose \<^verbatim>\<open>userId\<close> is absent, null, zero, the empty
  string or false changes nothing: the registry, the identity of the connection, the
  frames sent (neither an acknowledgment nor an error) and the open sockets are as
  before.
\<close>

theorem identify_falsy_ignored:
  assumes "js_get parsedMessage ''type'' = Some (JStr ''identify'')"
    and "js_get parsedMessage ''userId'' = Some userId"
    and "\<not> truthy userId"
  shows "on_message h (Some parsedMessage) st = st"
  using assms by (simp add: on_message_def try_body_identify identify_frame_def)

text \<open>
  Witness for claim C10: the identify frame with \<^verbatim>\<open>userId: 0\<close> on a fresh connection.
\<close>

theorem identify_falsy_ignored_witness:
  "js_get (JObj [(''type'', JStr ''identify''), (''userId'', JNum 0)]) ''type'' = Some (JStr ''identify'')
   \<and> js_get (JObj [(''type'', JStr ''identify''), (''userId'', JNum 0)]) ''userId'' = Some (JNum 0)
   \<and> \<not> truthy (JNum 0)
   \<and> on_message 1 (Some (JObj [(''type'', JStr ''identify''), (''userId'', JNum 0)]))
        (on_connection 1 (initial empty_db)) = on_connection 1 (initial empty_db)"
  using identify_falsy_ignored [of "JObj [(''type'', JStr ''identify''), (''userId'', JNum 0)]"
      "JNum 0" 1 "on_connection 1 (initial empty_db)"]
  by simp

text \<open>
  Counterexample to claim C3 as stated: a frame of type \<^verbatim>\<open>"ping"\<close> gets no frame back, since no
  branch of the handler matches it and nothing throws.
\<close>

theorem unknown_type_counterexample:
  "sent (on_message 1 (Some (JObj [(''type'', JStr ''ping'')])) (initial empty_db)) 1 = []"
  by (simp add: on_message_def try_body_def initial_def)

text \<open>
  Claim C3, amended. A payload that parses to a value other than null and whose type is
  neither \<^verbatim>\<open>"identify"\<close> nor \<^verbatim>\<open>"chat"\<close> is ignored: no frame is sent and nothing
  changes. A payload that parses to null, and a payload that does not parse, get one
  error frame on the sending connection and change nothing else. No payload makes the
  handler close a connection.
\<close>

theorem unknown_type_ignored_malformed_answered:
  "(js_get parsedMessage ''type'' = Some t \<longrightarrow> t \<noteq> JStr ''identify'' \<longrightarrow> t \<noteq> JStr ''chat'' \<longrightarrow>
      on_message h (Some parsedMessage) st = st)
   \<and> (js_get parsedMessage ''type'' = None \<longrightarrow>
      on_message h (Some parsedMessage) st =
        st\<lparr> sent := (sent st)(h := sent st h @ [ErrorFrame ''Failed to process message'']) \<rparr>)
   \<and> on_message h None st =
        st\<lparr> sent := (sent st)(h := sent st h @ [ErrorFrame ''Failed to process message'']) \<rparr>
   \<and> open_sockets (on_message h payload st) = open_sockets st"
  by (simp add: on_message_open_sockets) (simp add: on_message_def try_body_def send_def)

text \<open>
  Claim C4. A chat frame whose \<^verbatim>\<open>senderId\<close> is falsy, cannot be rendered, or renders to
  something else than the identity of the connection, and any chat frame on a connection
  whose identity is still \<^verbatim>\<open>"unknown"\<close>, is answered by exactly one error frame on the
  sending connection; nothing else changes: no message is stored, no connection is closed,
  the registry is as before. (On an unidentified connection the sender
  \<^verbatim>\<open>"unknown"\<close> passes the comparison, and the insert then fails on the integer column
  \<^verbatim>\<open>sender_id\<close>.)
  The identity of a connection is the rendering of the \<^verbatim>\<open>userId\<close> it identified with
  (\<open>identify_fixes_clientId\<close>), and two numbers that differ have renderings that differ
  (\<open>sender_number_differs\<close>).
\<close>

theorem chat_sender_mismatch_rejected:
  assumes "js_get parsedMessage ''type'' = Some (JStr ''chat'')"
    and "js_get parsedMessage ''senderId'' = Some sender"
    and "\<not> (truthy sender \<and> js_toString sender = Some (clientId st h)) \<or> clientId st h = ''unknown''"
  shows "\<exists>e \<in> {''Sender ID doesn't match your identity'', ''Failed to process message''}.
           on_message h (Some parsedMessage) st =
             st\<lparr> sent := (sent st)(h := sent st h @ [ErrorFrame e]) \<rparr>"
proof -
  from assms(1) obtain b c d where
    f: "js_get parsedMessage ''receiverId'' = Some b" "js_get parsedMessage ''content'' = Some c"
       "js_get parsedMessage ''exchangeId'' = Some d"
    by (meson js_get_defined)
  let ?ins = "\<lparr> im_senderId = sender, im_receiverId = b, im_content = c,
                 im_exchangeId = (if truthy d then d else JNull) \<rparr>"
  have body: "try_body h (Some parsedMessage) st = chat_frame h sender b c d st"
    using assms(1,2) f by (rule try_body_chat)
  show ?thesis
  proof (cases "truthy sender \<and> js_toString sender = Some (clientId st h)")
    case False
    then show ?thesis
      by (auto simp: on_message_def body chat_frame_def chat_deliver_def send_def split: option.splits)
  next
    case True
    with assms(3) have "js_toString (im_senderId ?ins) = Some ''unknown''" by simp
    then obtain e where "createMessage ?ins (storage st) = Inl (e, storage st)"
      using createMessage_unknown_sender by blast
    with True show ?thesis
      by (simp add: on_message_def body chat_frame_def chat_deliver_def send_def)
  qed
qed

text \<open>
  Claim C6. When \<^verbatim>\<open>createMessage\<close> fails for a chat frame that passed the sender check,
  the sender gets one error frame and nothing else happens in the relay: no
  acknowledgment, no push to the receiver, no closed connection, the registry as it
  was. No message is stored; of the database only the serial of \<^verbatim>\<open>messages.id\<close> may
  have moved on.
\<close>

theorem chat_persistence_failure:
  assumes "js_get parsedMessage ''type'' = Some (JStr ''chat'')"
    and "js_get parsedMessage ''senderId'' = Some sender"
    and "js_get parsedMessage ''receiverId'' = Some receiver"
    and "js_get parsedMessage ''content'' = Some cont"
    and "js_get parsedMessage ''exchangeId'' = Some exch"
    and "truthy sender" and "js_toString sender = Some (clientId st h)"
    and "createMessage \<lparr> im_senderId = sender, im_receiverId = receiver, im_content = cont,
            im_exchangeId = (if truthy exch then exch else JNull) \<rparr> (storage st) = Inl (e, db')"
  shows "on_message h (Some parsedMessage) st =
           st\<lparr> storage := db',
               sent := (sent st)(h := sent st h @ [ErrorFrame ''Failed to process message'']) \<rparr>
         \<and> db' = (storage st)\<lparr> messages_id_seq := messages_id_seq db' \<rparr>
         \<and> messages db' = messages (storage st)"
proof -
  have "try_body h (Some parsedMessage) st = chat_frame h sender receiver cont exch st"
    using assms(1-5) by (rule try_body_chat)
  with assms(6-8) have "on_message h (Some parsedMessage) st =
           st\<lparr> storage := db',
               sent := (sent st)(h := sent st h @ [ErrorFrame ''Failed to process message'']) \<rparr>"
  proof (cases "js_String sender = None \<or> js_String receiver = None")
    case True
    with assms(7) have n: "js_String receiver = None" by (simp add: js_String_None_iff)
    then have "\<not> is_null receiver" "integer_column receiver = None"
      by (cases receiver; simp add: is_null_def js_String_None_iff)+
    then have "createMessage \<lparr> im_senderId = sender, im_receiverId = receiver, im_content = cont,
            im_exchangeId = (if truthy exch then exch else JNull) \<rparr> (storage st)
          = Inl (if online (storage st) then InvalidInteger else Unavailable, storage st)"
      by (simp add: createMessage_def)
    with assms(8) have "db' = storage st" by simp
    with True \<open>try_body h (Some parsedMessage) st = chat_frame h sender receiver cont exch st\<close>
    show ?thesis by (simp add: on_message_def chat_frame_def send_def)
  next
    case False
    with assms(6-8) \<open>try_body h (Some parsedMessage) st = chat_frame h sender receiver cont exch st\<close>
    show ?thesis by (simp add: on_message_def chat_frame_def send_def)
  qed
  moreover from createMessage_Inl [OF assms(8)]
  have "db' = (storage st)\<lparr> messages_id_seq := messages_id_seq db' \<rparr>" .
  moreover from this have "messages db' = messages (storage st)"
    by (metis database.select_convs(1) database.surjective database.update_convs(2))
  ultimately show ?thesis by blast
qed

lemma storage_send [simp]: "storage (send h f st) = storage st"
  by (simp add: send_def)

lemma clients_send [simp]: "clients (send h f st) = clients st"
  by (simp add: send_def)

lemma chat_deliver_Done:
  assumes "js_toString receiver = Some k"
  shows "chat_deliver h receiver m st =
           Done (st\<lparr> sent := (\<lambda>x. sent st x
                              @ (if x = h then [SystemFrame ''Message sent successfully''
                                                  (Some (msg_id m))] else [])
                              @ (if clients st k = Some x then [MessageFrame m] else [])) \<rparr>)"
proof (cases "clients st k")
  case None
  have "(sent st)(h := sent st h @ [SystemFrame ''Message sent successfully'' (Some (msg_id m))])
        = (\<lambda>x. sent st x @ (if x = h then [SystemFrame ''Message sent successfully''
                                      (Some (msg_id m))] else []))"
    by (simp add: fun_eq_iff)
  with None assms show ?thesis by (simp add: chat_deliver_def send_def)
next
  case (Some r)
  have "((sent st)(h := sent st h @ [SystemFrame ''Message sent successfully'' (Some (msg_id m))]))
          (r := ((sent st)(h := sent st h @ [SystemFrame ''Message sent successfully''
                    (Some (msg_id m))])) r @ [MessageFrame m])
        = (\<lambda>x. sent st x @ (if x = h then [SystemFrame ''Message sent successfully''
                                      (Some (msg_id m))] else [])
                  @ (if r = x then [MessageFrame m] else []))"
    by (auto simp: fun_eq_iff)
  with Some assms show ?thesis by (simp add: chat_deliver_def send_def)
qed

text \<open>
  Counterexample to claim C5 as stated: the frame of the identified user 10 that names
  no receiver passes the sender check, and no message is stored; the sender gets an
  error frame and no acknowledgment.
\<close>

theorem accepted_frame_not_persisted_counterexample:
  "truthy (JNum 10) \<and> js_toString (JNum 10) = Some (clientId two_users 1)
   \<and> messages (storage (on_message 1
        (Some (JObj [(''type'', JStr ''chat''), (''senderId'', JNum 10),
                     (''content'', JStr ''hi'')])) two_users)) = []
   \<and> sent (on_message 1
        (Some (JObj [(''type'', JStr ''chat''), (''senderId'', JNum 10),
                     (''content'', JStr ''hi'')])) two_users) 1
       = sent two_users 1 @ [ErrorFrame ''Failed to process message'']"
  by code_simp

text \<open>
  Claim C5, amended. A chat frame that passed the sender check is stored when the
  database answers, the sender and the receiver are 32-bit integers for their columns,
  the content has a text (it is not null, and its text has no zero byte), and the
  exchange is falsy or a 32-bit integer. Then exactly one message is appended to the
  table, with \<open>read = False\<close>, the next serial and the column values of the frame's
  fields; the sender gets the acknowledgment with the identifier of the new message; the
  socket registered for the receiver, if any, gets one message frame with the stored
  message; no other socket gets anything, and nothing else changes. The delivery after
  the insert does the same in whatever state it resumes: it reads the registry of that
  state, once.
\<close>

theorem chat_accepted_persisted_and_relayed:
  assumes "js_get parsedMessage ''type'' = Some (JStr ''chat'')"
    and "js_get parsedMessage ''senderId'' = Some sender"
    and "js_get parsedMessage ''receiverId'' = Some receiver"
    and "js_get parsedMessage ''content'' = Some cont"
    and "js_get parsedMessage ''exchangeId'' = Some exch"
    and "truthy sender" and "js_toString sender = Some (clientId st h)"
    and "online (storage st)"
    and "integer_column sender = Some s"
    and "integer_column receiver = Some r"
    and "text_column (driver_text (storage st)) cont = Some c"
    and "\<not> truthy exch \<or> integer_column exch \<noteq> None"
    and "m = \<lparr> msg_id = messages_id_seq (storage st), senderId = s, receiverId = r,
               exchangeId = (if truthy exch then integer_column exch else None),
               content = c, read = False, msg_createdAt = Some (clock (storage st)) \<rparr>"
  shows "\<exists>k. js_toString receiver = Some k
              \<and> on_message h (Some parsedMessage) st =
                  st\<lparr> storage := (storage st)
                                  \<lparr> messages := messages (storage st) @ [m],
                                    messages_id_seq := messages_id_seq (storage st) + 1 \<rparr>,
                      sent := (\<lambda>x. sent st x
                                @ (if x = h then [SystemFrame ''Message sent successfully''
                                                    (Some (msg_id m))] else [])
                                @ (if clients st k = Some x then [MessageFrame m] else [])) \<rparr>
              \<and> (\<forall>st2. chat_deliver h receiver m st2 =
                    Done (st2\<lparr> sent := (\<lambda>x. sent st2 x
                                @ (if x = h then [SystemFrame ''Message sent successfully''
                                                    (Some (msg_id m))] else [])
                                @ (if clients st2 k = Some x then [MessageFrame m] else [])) \<rparr>))"
proof -
  let ?d = "\<lparr> im_senderId = sender, im_receiverId = receiver, im_content = cont,
              im_exchangeId = (if truthy exch then exch else JNull) \<rparr>"
  let ?db' = "(storage st)\<lparr> messages := messages (storage st) @ [m],
                            messages_id_seq := messages_id_seq (storage st) + 1 \<rparr>"
  have x: "integer_column (im_exchangeId ?d) = (if truthy exch then integer_column exch else None)"
    by simp
  have "is_null (im_exchangeId ?d) \<or> integer_column (im_exchangeId ?d) \<noteq> None"
    using assms(12) by (auto simp: is_null_def)
  with createMessage_succeeds [of "storage st" ?d s r c] assms(8-11)
  have cm: "createMessage ?d (storage st) = Inr (m, ?db')"
    unfolding assms(13) x by simp
  from assms(10) obtain k where k: "js_toString receiver = Some k"
    by (auto dest: integer_column_toString)
  have body: "try_body h (Some parsedMessage) st = chat_frame h sender receiver cont exch st"
    using assms(1-5) by (rule try_body_chat)
  have frame: "chat_frame h sender receiver cont exch st
                 = chat_deliver h receiver m (st\<lparr> storage := ?db' \<rparr>)"
    using assms(6,7) k cm by (simp add: chat_frame_def js_String_None_iff)
  have run: "on_message h (Some parsedMessage) st =
      st\<lparr> storage := ?db',
          sent := (\<lambda>x. sent st x
                    @ (if x = h then [SystemFrame ''Message sent successfully''
                                        (Some (msg_id m))] else [])
                    @ (if clients st k = Some x then [MessageFrame m] else [])) \<rparr>"
    by (simp add: on_message_def body frame chat_deliver_Done [OF k])
  with k chat_deliver_Done [OF k, of h m] show ?thesis by blast
qed

lemma storage_chat_frame:
  "storage (final (chat_frame h a b c d st)) = storage st
   \<or> (\<exists>e db'. createMessage \<lparr> im_senderId = a, im_receiverId = b, im_content = c,
                   im_exchangeId = (if truthy d then d else JNull) \<rparr> (storage st) = Inl (e, db')
         \<and> storage (final (chat_frame h a b c d st)) = db')
   \<or> (\<exists>m db'. createMessage \<lparr> im_senderId = a, im_receiverId = b, im_content = c,
                   im_exchangeId = (if truthy d then d else JNull) \<rparr> (storage st) = Inr (m, db')
         \<and> storage (final (chat_frame h a b c d st)) = db')"
  by (simp add: chat_frame_def chat_deliver_def Let_def
      split: option.splits sum.splits prod.splits)

lemma storage_on_message:
  "storage (on_message h payload st) = storage (final (try_body h payload st))"
  by (cases "try_body h payload st") (simp_all add: on_message_def)

text \<open>
  Claim C9, amended. The relay does not check the content for emptiness. A chat frame
  that changes the table of messages appends exactly one message; the content field of
  that frame is neither null nor missing, and the content of the message is the text
  that the column holds for it: a string as it came, the empty string included.
\<close>

theorem persisted_content_is_frame_content:
  assumes "js_get parsedMessage ''type'' = Some (JStr ''chat'')"
    and "js_get parsedMessage ''content'' = Some cont"
    and "messages (storage (on_message h (Some parsedMessage) st)) \<noteq> messages (storage st)"
  shows "\<exists>m. messages (storage (on_message h (Some parsedMessage) st)) = messages (storage st) @ [m]
             \<and> cont \<noteq> JNull \<and> cont \<noteq> JUndefined
             \<and> text_column (driver_text (storage st)) cont = Some (content m)
             \<and> (\<forall>s. cont = JStr s \<longrightarrow> content m = s)"
proof -
  from assms(1) obtain a b d where
    f: "js_get parsedMessage ''senderId'' = Some a" "js_get parsedMessage ''receiverId'' = Some b"
       "js_get parsedMessage ''exchangeId'' = Some d"
    by (meson js_get_defined)
  let ?d = "\<lparr> im_senderId = a, im_receiverId = b, im_content = cont,
              im_exchangeId = (if truthy d then d else JNull) \<rparr>"
  have body: "try_body h (Some parsedMessage) st = chat_frame h a b cont d st"
    using assms(1) f(1,2) assms(2) f(3) by (rule try_body_chat)
  from assms(3) have changed:
    "messages (storage (final (chat_frame h a b cont d st))) \<noteq> messages (storage st)"
    by (simp add: storage_on_message body)
  from storage_chat_frame [of h a b cont d st] consider
      "storage (final (chat_frame h a b cont d st)) = storage st"
    | e db' where "createMessage ?d (storage st) = Inl (e, db')"
        "storage (final (chat_frame h a b cont d st)) = db'"
    | m db' where "createMessage ?d (storage st) = Inr (m, db')"
        "storage (final (chat_frame h a b cont d st)) = db'"
    by blast
  then show ?thesis
  proof cases
    case 1
    with changed show ?thesis by simp
  next
    case 2
    from createMessage_Inl [OF 2(1)] have "messages db' = messages (storage st)"
      by (metis database.select_convs(1) database.surjective database.update_convs(2))
    with 2(2) changed show ?thesis by simp
  next
    case 3
    note cm = createMessage_Inr [OF 3(1)]
    from cm(5) have t: "text_column (driver_text (storage st)) cont = Some (content m)" by simp
    then have "\<forall>s. cont = JStr s \<longrightarrow> content m = s" by (auto split: if_splits)
    moreover from cm(6) have "cont \<noteq> JNull" "cont \<noteq> JUndefined" by (auto simp: is_null_def)
    moreover from cm(1) 3(2)
    have "messages (storage (on_message h (Some parsedMessage) st)) = messages (storage st) @ [m]"
      by (simp add: storage_on_message body)
    ultimately show ?thesis using t by blast
  qed
qed

text \<open>
  Counterexample to claim C9 as stated: the chat frame of the identified user 10 with the
  content \<^verbatim>\<open>""\<close> is stored, with the empty content.
\<close>

theorem empty_content_counterexample:
  "map content (messages (storage (run [Connection 1, Message 1 (Some (identify (JNum 10))),
       Message 1 (Some (chat (JNum 10) (JNum 11) (JStr []) JNull))] (initial empty_db))))
   = [[]]"
  by code_simp

section \<open>The connection registry\<close>

lemma lookup_spec_snoc:
  "lookup_spec (ops @ [x]) u =
     (if op_user x = u then (case x of Register _ h \<Rightarrow> Some h | Unregister _ \<Rightarrow> None)
      else lookup_spec ops u)"
  by (cases x) (simp_all add: lookup_spec_def)

lemma lookup_spec_snoc2:
  "lookup_spec (ops @ [x, y]) u =
     (if op_user y = u then (case y of Register _ h \<Rightarrow> Some h | Unregister _ \<Rightarrow> None)
      else if op_user x = u then (case x of Register _ h \<Rightarrow> Some h | Unregister _ \<Rightarrow> None)
      else lookup_spec ops u)"
  using lookup_spec_snoc [of "ops @ [x]" y u] lookup_spec_snoc [of ops x u] by simp

lemma userId_plain_number: "userId_plain (JNum n)"
  by (simp add: userId_plain_def number_toString_not_unknown)

lemma registry_chat_frame:
  "clients (final (chat_frame h a b c d st)) = clients st"
  "clientId (final (chat_frame h a b c d st)) = clientId st"
  by (simp_all add: chat_frame_def chat_deliver_def Let_def send_def
      split: option.splits sum.splits prod.splits)

lemma registry_on_message_other:
  assumes "identify_userId (Message h payload) = None"
  shows "clients (on_message h payload st) = clients st"
    and "clientId (on_message h payload st) = clientId st"
proof -
  have "clients (final (try_body h payload st)) = clients st
        \<and> clientId (final (try_body h payload st)) = clientId st"
  proof (cases payload)
    case None
    then show ?thesis by (simp add: try_body_def)
  next
    case (Some p)
    show ?thesis
    proof (cases "js_get p ''type''")
      case None
      with Some show ?thesis by (simp add: try_body_def)
    next
      case (Some t)
      then obtain v where v: "js_get p ''userId'' = Some v" by (meson js_get_defined)
      with assms \<open>payload = Some p\<close> Some have "t \<noteq> JStr ''identify''" by auto
      with Some \<open>payload = Some p\<close> show ?thesis
        by (simp add: try_body_def registry_chat_frame split: option.splits)
    qed
  qed
  then show "clients (on_message h payload st) = clients st"
    and "clientId (on_message h payload st) = clientId st"
    by (cases "try_body h payload st"; simp add: on_message_def send_def)+
qed

lemma registry_inv_initial: "registry_inv (initial db) (Map.empty, [])"
  by (simp add: registry_inv_def initial_def lookup_spec_def fun_eq_iff)

lemma registry_inv_connection:
  assumes "registry_inv st (ident, ops)"
  shows "registry_inv (on_connection h st) (spec_step (Connection h) (ident, ops))"
  using assms
  by (auto simp: registry_inv_def on_connection_def send_def fun_eq_iff ran_def)

lemma registry_inv_close:
  assumes "registry_inv st (ident, ops)"
  shows "registry_inv (on_close h st) (spec_step (Close h) (ident, ops))"
proof (cases "ident h")
  case None
  with assms have "clientId st h = ''unknown''" by (simp add: registry_inv_def)
  moreover from assms have "clients st ''unknown'' = None" by (simp add: registry_inv_def)
  then have "(clients st)(''unknown'' := None) = clients st" by (rule fun_upd_idem)
  ultimately have "on_close h st = st\<lparr> open_sockets := open_sockets st - {h} \<rparr>"
    by (simp add: on_close_def clients_delete_def)
  with assms None show ?thesis by (simp add: registry_inv_def)
next
  case (Some old)
  with assms have "clientId st h = old" by (simp add: registry_inv_def)
  with assms Some show ?thesis
    by (auto simp: registry_inv_def on_close_def clients_delete_def lookup_spec_snoc fun_eq_iff)
qed

lemma registry_inv_identify:
  assumes inv: "registry_inv st (ident, ops)"
    and ev: "identify_userId (Message h payload) = Some userId"
    and plain: "userId_plain userId"
  shows "registry_inv (on_message h payload st) (spec_step (Message h payload) (ident, ops))"
proof -
  from ev obtain p where p: "payload = Some p"
    "js_get p ''type'' = Some (JStr ''identify'')" "js_get p ''userId'' = Some userId"
    by (cases payload) (auto split: if_splits)
  have body: "try_body h (Some p) st = identify_frame h userId st"
    using p(2,3) by (rule try_body_identify)
  show ?thesis
  proof (cases "truthy userId")
    case False
    with inv ev p show ?thesis
      by (simp add: on_message_def body identify_frame_def)
  next
    case True
    with plain obtain u where u: "js_toString userId = Some u" "u \<noteq> ''unknown''"
      by (auto simp: userId_plain_def split: option.splits)
    show ?thesis
    proof (cases "ident h")
      case None
      with inv have "clientId st h = ''unknown''" by (simp add: registry_inv_def)
      with inv ev p True u None show ?thesis
        by (auto simp: registry_inv_def on_message_def body identify_frame_def Let_def send_def
            clients_set_def lookup_spec_snoc fun_eq_iff ran_def)
    next
      case (Some old)
      with inv have old: "clientId st h = old" "old \<noteq> ''unknown''"
        by (auto simp: registry_inv_def ran_def)
      with inv ev p True u Some show ?thesis
        by (auto simp: registry_inv_def on_message_def body identify_frame_def Let_def send_def
            clients_set_def clients_delete_def lookup_spec_snoc2 fun_eq_iff ran_def)
    qed
  qed
qed

lemma registry_inv_step:
  assumes "registry_inv st sp" and "plain_event ev"
  shows "registry_inv (step ev st) (spec_step ev sp)"
proof -
  obtain ident ops where sp: "sp = (ident, ops)" by (cases sp)
  show ?thesis
  proof (cases ev)
    case (Connection h)
    with assms(1) sp registry_inv_connection [of st ident ops h] show ?thesis by simp
  next
    case (Close h)
    with assms(1) sp registry_inv_close [of st ident ops h] show ?thesis by simp
  next
    case (Message h payload)
    show ?thesis
    proof (cases "identify_userId (Message h payload)")
      case None
      with assms(1) sp Message show ?thesis
        by (simp add: registry_inv_def registry_on_message_other)
    next
      case (Some userId)
      with assms(2) Message have "userId_plain userId" by (simp add: plain_event_def)
      with assms(1) sp Some have
        "registry_inv (on_message h payload st) (spec_step (Message h payload) (ident, ops))"
        by (intro registry_inv_identify) simp_all
      with sp Message show ?thesis by (simp del: spec_step.simps)
    qed
  qed
qed

lemma registry_inv_fold:
  "registry_inv st sp \<Longrightarrow> list_all plain_event evs
   \<Longrightarrow> registry_inv (fold step evs st) (fold spec_step evs sp)"
  by (induction evs arbitrary: st sp) (simp_all add: registry_inv_step)

lemma identify_frame_registers:
  assumes "truthy userId" and "js_toString userId = Some u"
  shows "clients (on_message h (Some (identify userId)) st) u = Some h"
    and "clientId (on_message h (Some (identify userId)) st) h = u"
    and "h' \<noteq> h \<Longrightarrow> clientId (on_message h (Some (identify userId)) st) h' = clientId st h'"
  using assms
  by (simp_all add: on_message_def try_body_def identify_def identify_frame_def Let_def send_def
      clients_set_def clients_delete_def)

text \<open>
  Why the identify frames have to be plain: a connection that identified as the user
  \<^verbatim>\<open>"unknown"\<close> and then as user 5 stays registered for \<^verbatim>\<open>"unknown"\<close>, which the
  specification's operations unregister.
\<close>

lemma sentinel_user_stays_registered:
  "clients (run [Message 1 (Some (identify (JStr ''unknown''))),
                 Message 1 (Some (identify (JNum 5)))] (initial empty_db)) ''unknown'' = Some 1
   \<and> lookup_spec (spec_ops [Message 1 (Some (identify (JStr ''unknown''))),
                            Message 1 (Some (identify (JNum 5)))]) ''unknown'' = None"
  by code_simp

text \<open>
  Claim C2, amended. Take any sequence of connections, frames and closes from the initial
  state in which the identify frames are plain (their \<^verbatim>\<open>userId\<close> is falsy, or renders to
  something else than \<^verbatim>\<open>"unknown"\<close>, as every number does). Then the lookup of a user in
  \<^verbatim>\<open>clients\<close> is what the most recent operation for that user left, where an identify
  frame registers its connection for the user it names, after unregistering the user
  this connection had before, and a close unregisters the user its connection had: the
  handle of the most recent register, absent after an unregister or with no operation.
  An identify frame that names a user leaves its connection registered for that user.
  The close of a connection unregisters its user whoever holds the entry: after A and
  then B identify as the same user, the close of A leaves that user absent.
\<close>

theorem registry_lookup_last_operation:
  "(list_all plain_event evs \<longrightarrow>
      clients (run evs (initial db)) u = lookup_spec (spec_ops evs) u)
   \<and> (js_get p ''type'' = Some (JStr ''identify'') \<longrightarrow> js_get p ''userId'' = Some userId \<longrightarrow>
        truthy userId \<longrightarrow> js_toString userId = Some k \<longrightarrow>
        clients (on_message h (Some p) st) k = Some h)
   \<and> (truthy userId \<longrightarrow> js_toString userId = Some k \<longrightarrow>
        clients (run [Message a (Some (identify userId)), Message b (Some (identify userId)),
                      Close a] st) k = None)"
proof (intro conjI impI)
  assume "list_all plain_event evs"
  with registry_inv_initial
  have "registry_inv (fold step evs (initial db)) (fold spec_step evs (Map.empty, []))"
    by (rule registry_inv_fold)
  then show "clients (run evs (initial db)) u = lookup_spec (spec_ops evs) u"
    by (simp add: registry_inv_def run_def spec_ops_def)
next
  assume "js_get p ''type'' = Some (JStr ''identify'')" "js_get p ''userId'' = Some userId"
    "truthy userId" "js_toString userId = Some k"
  then show "clients (on_message h (Some p) st) k = Some h"
    by (rule identify_fixes_clientId(2))
next
  assume t: "truthy userId" and s: "js_toString userId = Some k"
  let ?s1 = "on_message a (Some (identify userId)) st"
  let ?s2 = "on_message b (Some (identify userId)) ?s1"
  have "clientId ?s2 a = k"
    using identify_frame_registers(2,3) [OF t s] by (cases "a = b") auto
  then show "clients (run [Message a (Some (identify userId)),
      Message b (Some (identify userId)), Close a] st) k = None"
    by (simp add: run_def on_close_def clients_delete_def)
qed

text \<open>
  Counterexample to the last part of claim C2 as stated: connection 1 and then connection
  2 identify as user 7, connection 1 closes, and the lookup of user 7 does not give
  connection 2.
\<close>

theorem superseded_close_counterexample:
  "clients (run [Connection 1, Connection 2, Message 1 (Some (identify (JNum 7))),
                 Message 2 (Some (identify (JNum 7))), Close 1] (initial empty_db)) ''7''
   \<noteq> Some 2"
  by code_simp

text \<open>
  Witness for claim C2, amended: after connections 1 and 2 identify as user 7 the lookup
  gives connection 2, the handle of the most recent register; after connection 1 closes
  the user is absent.
\<close>

theorem registry_lookup_last_operation_witness:
  "list_all plain_event [Connection 1, Connection 2, Message 1 (Some (identify (JNum 7))),
                         Message 2 (Some (identify (JNum 7)))]
   \<and> spec_ops [Connection 1, Connection 2, Message 1 (Some (identify (JNum 7))),
                Message 2 (Some (identify (JNum 7)))]
       = [Register ''7'' 1, Register ''7'' 2]
   \<and> clients (run [Connection 1, Connection 2, Message 1 (Some (identify (JNum 7))),
                    Message 2 (Some (identify (JNum 7)))] (initial empty_db)) ''7'' = Some 2
   \<and> truthy (JNum 7) \<and> js_toString (JNum 7) = Some ''7''
   \<and> clients (on_message 1 (Some (identify (JNum 7))) (initial empty_db)) ''7'' = Some 1
   \<and> clients (run [Message 1 (Some (identify (JNum 7))), Message 2 (Some (identify (JNum 7))),
                    Close 1] (initial empty_db)) ''7'' = None"
proof -
  let ?evs = "[Connection 1, Connection 2, Message 1 (Some (identify (JNum 7))),
               Message 2 (Some (identify (JNum 7)))]"
  have h0: "list_all plain_event ?evs" by code_simp
  have ops: "spec_ops ?evs = [Register ''7'' 1, Register ''7'' 2]" by code_simp
  have l: "lookup_spec [Register ''7'' 1, Register ''7'' 2] ''7'' = Some 2" by code_simp
  have h1: "truthy (JNum 7)" by simp
  have h2: "js_toString (JNum 7) = Some ''7''" by code_simp
  have p1: "js_get (identify (JNum 7)) ''type'' = Some (JStr ''identify'')"
    by (simp add: identify_def)
  have p2: "js_get (identify (JNum 7)) ''userId'' = Some (JNum 7)"
    by (simp add: identify_def)
  note t = registry_lookup_last_operation
    [where evs = ?evs and db = empty_db and u = "''7''" and p = "identify (JNum 7)"
       and userId = "JNum 7" and k = "''7''" and h = 1 and st = "initial empty_db"
       and a = 1 and b = 2]
  from t h0 ops l have c1: "clients (run ?evs (initial empty_db)) ''7'' = Some 2" by simp
  from t p1 p2 h1 h2
  have c2: "clients (on_message 1 (Some (identify (JNum 7))) (initial empty_db)) ''7'' = Some 1"
    by blast
  from t h1 h2
  have c3: "clients (run [Message 1 (Some (identify (JNum 7))),
      Message 2 (Some (identify (JNum 7))), Close 1] (initial empty_db)) ''7'' = None"
    by blast
  from h0 ops c1 h1 h2 c2 c3 show ?thesis by blast
qed

section \<open>Status of an exchange\<close>

lemma filter_id_map_update:
  "filter (\<lambda>e. exch_id e = j)
      (map (\<lambda>e. if exch_id e = i then e\<lparr> status := s, updatedAt := Some now \<rparr> else e) xs)
   = map (\<lambda>e. if exch_id e = i then e\<lparr> status := s, updatedAt := Some now \<rparr> else e)
      (filter (\<lambda>e. exch_id e = j) xs)"
  by (induction xs) simp_all

lemma map_update_other:
  "j \<noteq> i \<Longrightarrow>
   map (\<lambda>e. if exch_id e = i then e\<lparr> status := s, updatedAt := Some now \<rparr> else e)
      (filter (\<lambda>e. exch_id e = j) xs) = filter (\<lambda>e. exch_id e = j) xs"
  by (induction xs) simp_all

lemma map_update_absent:
  "filter (\<lambda>e. exch_id e = i) xs = [] \<Longrightarrow>
   map (\<lambda>e. if exch_id e = i then e\<lparr> status := s, updatedAt := Some now \<rparr> else e) xs = xs"
  by (induction xs) (simp_all split: if_splits)

lemma updateExchangeStatus_found:
  assumes "getExchangeById i db = Inr (Some e)"
  shows "updateExchangeStatus now i s db =
           Inr (Some (e\<lparr> status := s, updatedAt := Some now \<rparr>),
                db\<lparr> exchanges := map (\<lambda>e. if exch_id e = i
                                             then e\<lparr> status := s, updatedAt := Some now \<rparr> else e)
                                        (exchanges db) \<rparr>)"
proof -
  from assms have on: "online db" by (simp add: getExchangeById_def split: if_splits)
  from assms obtain rest where f: "filter (\<lambda>e. exch_id e = i) (exchanges db) = e # rest"
    by (auto simp: getExchangeById_def split: if_splits list.splits)
  then have "e \<in> set (filter (\<lambda>e. exch_id e = i) (exchanges db))" by simp
  then have "exch_id e = i" by simp
  with on f show ?thesis
    by (simp add: updateExchangeStatus_def Let_def filter_id_map_update)
qed

lemma getExchangeById_after_update:
  assumes "getExchangeById j db = Inr r"
  shows "getExchangeById j
           (db\<lparr> exchanges := map (\<lambda>e. if exch_id e = i
                                        then e\<lparr> status := s, updatedAt := Some now \<rparr> else e)
                                   (exchanges db) \<rparr>)
         = (if j = i then Inr (map_option (\<lambda>e. e\<lparr> status := s, updatedAt := Some now \<rparr>) r)
            else Inr r)"
proof (cases "j = i")
  case True
  show ?thesis
  proof (cases "filter (\<lambda>e. exch_id e = i) (exchanges db)")
    case Nil
    with assms True show ?thesis
      by (auto simp: getExchangeById_def filter_id_map_update split: if_splits)
  next
    case (Cons a rest)
    then have "a \<in> set (filter (\<lambda>e. exch_id e = i) (exchanges db))" by simp
    then have "exch_id a = i" by simp
    with assms True Cons show ?thesis
      by (auto simp: getExchangeById_def filter_id_map_update split: if_splits)
  qed
next
  case False
  with assms show ?thesis
    by (simp add: getExchangeById_def filter_id_map_update map_update_other split: if_splits)
qed

lemma updateExchangeStatus_absent:
  assumes "getExchangeById i db = Inr None"
  shows "updateExchangeStatus now i s db = Inr (None, db)"
proof -
  from assms have on: "online db" by (simp add: getExchangeById_def split: if_splits)
  from assms have f: "filter (\<lambda>e. exch_id e = i) (exchanges db) = []"
    by (auto simp: getExchangeById_def split: if_splits list.splits)
  from on f show ?thesis
    by (simp add: updateExchangeStatus_def Let_def map_update_absent)
qed

text \<open>
  Claim C8. For an exchange that the store holds, \<^verbatim>\<open>updateExchangeStatus\<close> returns the
  exchange with the new status and the new \<^verbatim>\<open>updatedAt\<close> and every other field as it
  was, the store holds this exchange afterwards, and the other exchanges and the rest of
  the database are untouched; for an identifier that the store does not hold it returns
  absent and the store is unchanged. Both for \<^verbatim>\<open>DatabaseStorage\<close> and for \<^verbatim>\<open>MemStorage\<close>.
\<close>

theorem updateExchangeStatus_frame:
  "(getExchangeById i db = Inr (Some e) \<longrightarrow>
      (\<exists>db'. updateExchangeStatus now i s db
                = Inr (Some (e\<lparr> status := s, updatedAt := Some now \<rparr>), db')
         \<and> getExchangeById i db' = Inr (Some (e\<lparr> status := s, updatedAt := Some now \<rparr>))
         \<and> (\<forall>j. j \<noteq> i \<longrightarrow> getExchangeById j db' = getExchangeById j db)
         \<and> db' = db\<lparr> exchanges := exchanges db' \<rparr>))
   \<and> (getExchangeById i db = Inr None \<longrightarrow> updateExchangeStatus now i s db = Inr (None, db))
   \<and> (MemStorage_getExchangeById i m = Some e \<longrightarrow>
        MemStorage_updateExchangeStatus now i s m
          = (Some (e\<lparr> status := s, updatedAt := Some now \<rparr>),
             m\<lparr> mem_exchanges := (mem_exchanges m)(i \<mapsto> e\<lparr> status := s, updatedAt := Some now \<rparr>) \<rparr>))
   \<and> (MemStorage_getExchangeById i m = None \<longrightarrow>
        MemStorage_updateExchangeStatus now i s m = (None, m))"
proof (intro conjI impI)
  assume g: "getExchangeById i db = Inr (Some e)"
  let ?db' = "db\<lparr> exchanges := map (\<lambda>e. if exch_id e = i
                                  then e\<lparr> status := s, updatedAt := Some now \<rparr> else e)
                               (exchanges db) \<rparr>"
  have on: "online db" using g by (simp add: getExchangeById_def split: if_splits)
  have other: "\<forall>j. j \<noteq> i \<longrightarrow> getExchangeById j ?db' = getExchangeById j db"
  proof (intro allI impI)
    fix j assume "j \<noteq> i"
    moreover from on obtain r where "getExchangeById j db = Inr r"
      by (simp add: getExchangeById_def)
    ultimately show "getExchangeById j ?db' = getExchangeById j db"
      by (simp add: getExchangeById_after_update)
  qed
  have "updateExchangeStatus now i s db
          = Inr (Some (e\<lparr> status := s, updatedAt := Some now \<rparr>), ?db')"
    using g by (rule updateExchangeStatus_found)
  moreover have "getExchangeById i ?db' = Inr (Some (e\<lparr> status := s, updatedAt := Some now \<rparr>))"
    using g by (simp add: getExchangeById_after_update)
  moreover have "?db' = db\<lparr> exchanges := exchanges ?db' \<rparr>" by simp
  ultimately show "\<exists>db'. updateExchangeStatus now i s db
                = Inr (Some (e\<lparr> status := s, updatedAt := Some now \<rparr>), db')
         \<and> getExchangeById i db' = Inr (Some (e\<lparr> status := s, updatedAt := Some now \<rparr>))
         \<and> (\<forall>j. j \<noteq> i \<longrightarrow> getExchangeById j db' = getExchangeById j db)
         \<and> db' = db\<lparr> exchanges := exchanges db' \<rparr>"
    using other by blast
next
  assume "getExchangeById i db = Inr None"
  then show "updateExchangeStatus now i s db = Inr (None, db)"
    by (rule updateExchangeStatus_absent)
next
  assume "MemStorage_getExchangeById i m = Some e"
  then show "MemStorage_updateExchangeStatus now i s m
          = (Some (e\<lparr> status := s, updatedAt := Some now \<rparr>),
             m\<lparr> mem_exchanges := (mem_exchanges m)(i \<mapsto> e\<lparr> status := s, updatedAt := Some now \<rparr>) \<rparr>)"
    by (simp add: MemStorage_updateExchangeStatus_def Let_def)
next
  assume "MemStorage_getExchangeById i m = None"
  then show "MemStorage_updateExchangeStatus now i s m = (None, m)"
    by (simp add: MemStorage_updateExchangeStatus_def)
qed

text \<open>
  Claim C7. For an authenticated caller and an exchange that exists: a status outside the
  four valid values is answered with 400 (invalid status); \<^verbatim>\<open>accepted\<close> or
  \<^verbatim>\<open>declined\<close> asked by someone other than the provider, and \<^verbatim>\<open>completed\<close> asked by
  someone who is neither requester nor provider, are answered with 403; the database is
  unchanged in all three cases.
\<close>

theorem status_request_authorization:
  assumes "user req = Some uid"
    and "getExchangeById (params_id req) db = Inr (Some ex)"
    and "js_get (body req) ''status'' = Some v"
  shows "(v \<notin> JStr ` set valid_statuses \<longrightarrow>
            patch_exchange_status now req db = ((400, Msg ''Invalid status''), db))
       \<and> ((v = JStr ''accepted'' \<or> v = JStr ''declined'') \<and> providerId ex \<noteq> uid \<longrightarrow>
            patch_exchange_status now req db
              = ((403, Msg ''Only the provider can accept or decline exchanges''), db))
       \<and> (v = JStr ''completed'' \<and> requesterId ex \<noteq> uid \<and> providerId ex \<noteq> uid \<longrightarrow>
            patch_exchange_status now req db
              = ((403, Msg ''Only participants can mark exchange as completed''), db))"
  using assms
  by (cases v) (auto simp: patch_exchange_status_def valid_statuses_def)

text \<open>
  Claim C1, amended. The route never reads the current status of the exchange. For an
  authenticated caller, an existing exchange in any status and a request naming one of
  the four valid statuses: the request is answered with 403 and changes nothing when the
  caller is not entitled to the requested status; otherwise it is answered with 200 and
  the exchange gets the requested status and a new \<^verbatim>\<open>updatedAt\<close>.
\<close>

theorem status_request_ignores_current_status:
  assumes "user req = Some uid"
    and "getExchangeById (params_id req) db = Inr (Some ex)"
    and "js_get (body req) ''status'' = Some (JStr s)"
    and "s \<in> set valid_statuses"
  shows "if ((s = ''accepted'' \<or> s = ''declined'') \<and> providerId ex \<noteq> uid)
            \<or> (s = ''completed'' \<and> requesterId ex \<noteq> uid \<and> providerId ex \<noteq> uid)
         then fst (fst (patch_exchange_status now req db)) = 403
              \<and> snd (patch_exchange_status now req db) = db
         else fst (patch_exchange_status now req db)
                = (200, ExchangeJson (Some (ex\<lparr> status := s, updatedAt := Some now \<rparr>)))
              \<and> getExchangeById (params_id req) (snd (patch_exchange_status now req db))
                = Inr (Some (ex\<lparr> status := s, updatedAt := Some now \<rparr>))"
proof -
  note upd = updateExchangeStatus_found [OF assms(2), of now s]
  have after: "getExchangeById (params_id req)
      (db\<lparr> exchanges := map (\<lambda>e. if exch_id e = params_id req
                                  then e\<lparr> status := s, updatedAt := Some now \<rparr> else e)
                             (exchanges db) \<rparr>)
      = Inr (Some (ex\<lparr> status := s, updatedAt := Some now \<rparr>))"
    using assms(2) by (simp add: getExchangeById_after_update)
  from assms(1,3,4) show ?thesis
    by (auto simp: patch_exchange_status_def assms(2) upd after valid_statuses_def)
qed

text \<open>
  Counterexample to claim C1 as stated: the provider asks \<^verbatim>\<open>accepted\<close> for a completed exchange and
  gets 200, and the exchange is accepted afterwards.
\<close>

theorem transition_from_completed_counterexample:
  "fst (fst (patch_exchange_status 200 (status_request 2 (JStr ''accepted''))
               (exchange_db ''completed''))) = 200
   \<and> map status (exchanges (snd (patch_exchange_status 200 (status_request 2 (JStr ''accepted''))
                                   (exchange_db ''completed'')))) = [''accepted'']"
  by code_simp

section \<open>The properties at concrete inputs\<close>

text \<open>
  Witness for claim C3, amended: the frame of type \<^verbatim>\<open>"ping"\<close> and the payload
  \<^verbatim>\<open>null\<close>.
\<close>

theorem unknown_type_ignored_malformed_answered_witness:
  "js_get (JObj [(''type'', JStr ''ping'')]) ''type'' = Some (JStr ''ping'')
   \<and> JStr ''ping'' \<noteq> JStr ''identify'' \<and> JStr ''ping'' \<noteq> JStr ''chat''
   \<and> on_message 1 (Some (JObj [(''type'', JStr ''ping'')])) two_users = two_users
   \<and> js_get JNull ''type'' = None
   \<and> on_message 1 (Some JNull) two_users =
        two_users\<lparr> sent := (sent two_users)
                    (1 := sent two_users 1 @ [ErrorFrame ''Failed to process message'']) \<rparr>"
  using unknown_type_ignored_malformed_answered
      [of "JObj [(''type'', JStr ''ping'')]" "JStr ''ping''" 1 two_users None]
    unknown_type_ignored_malformed_answered [of JNull JNull 1 two_users None]
  by simp

text \<open>
  Witness for claim C4: a frame of user 10's connection that names sender 12, and a frame
  with the sender \<^verbatim>\<open>"unknown"\<close> on a connection that has not identified.
\<close>

theorem chat_sender_mismatch_rejected_witness:
  "js_get (chat (JNum 12) (JNum 11) (JStr ''hi'') JNull) ''type'' = Some (JStr ''chat'')
   \<and> js_get (chat (JNum 12) (JNum 11) (JStr ''hi'') JNull) ''senderId'' = Some (JNum 12)
   \<and> js_toString (JNum 12) = Some ''12'' \<and> clientId two_users 1 = ''10''
   \<and> (\<exists>e \<in> {''Sender ID doesn't match your identity'', ''Failed to process message''}.
         on_message 1 (Some (chat (JNum 12) (JNum 11) (JStr ''hi'') JNull)) two_users =
           two_users\<lparr> sent := (sent two_users)(1 := sent two_users 1 @ [ErrorFrame e]) \<rparr>)
   \<and> js_get (chat (JStr ''unknown'') (JNum 11) (JStr ''hi'') JNull) ''senderId''
        = Some (JStr ''unknown'')
   \<and> clientId (on_connection 3 two_users) 3 = ''unknown''
   \<and> (\<exists>e \<in> {''Sender ID doesn't match your identity'', ''Failed to process message''}.
         on_message 3 (Some (chat (JStr ''unknown'') (JNum 11) (JStr ''hi'') JNull))
             (on_connection 3 two_users) =
           (on_connection 3 two_users)
             \<lparr> sent := (sent (on_connection 3 two_users))
                  (3 := sent (on_connection 3 two_users) 3 @ [ErrorFrame e]) \<rparr>)"
proof -
  have a1: "js_get (chat (JNum 12) (JNum 11) (JStr ''hi'') JNull) ''type'' = Some (JStr ''chat'')"
    by (simp add: chat_def)
  have a2: "js_get (chat (JNum 12) (JNum 11) (JStr ''hi'') JNull) ''senderId'' = Some (JNum 12)"
    by (simp add: chat_def)
  have a3: "\<not> (truthy (JNum 12) \<and> js_toString (JNum 12) = Some (clientId two_users 1))
        \<or> clientId two_users 1 = ''unknown''"
    by code_simp
  have b1: "js_get (chat (JStr ''unknown'') (JNum 11) (JStr ''hi'') JNull) ''type''
        = Some (JStr ''chat'')"
    by (simp add: chat_def)
  have b2: "js_get (chat (JStr ''unknown'') (JNum 11) (JStr ''hi'') JNull) ''senderId''
        = Some (JStr ''unknown'')"
    by (simp add: chat_def)
  have b3': "clientId (on_connection 3 two_users) 3 = ''unknown''"
    by (simp add: on_connection_def send_def)
  then have b3: "\<not> (truthy (JStr ''unknown'')
          \<and> js_toString (JStr ''unknown'') = Some (clientId (on_connection 3 two_users) 3))
        \<or> clientId (on_connection 3 two_users) 3 = ''unknown''"
    by simp
  have a4: "js_toString (JNum 12) = Some ''12''" by code_simp
  have a5: "clientId two_users 1 = ''10''" by code_simp
  from chat_sender_mismatch_rejected [OF a1 a2 a3] chat_sender_mismatch_rejected [OF b1 b2 b3]
    a1 a2 a4 a5 b2 b3'
  show ?thesis by blast
qed

text \<open>
  Witness for claim C5, amended: the frame from user 10 to user 11, who is registered on
  socket 2.
\<close>

theorem chat_accepted_persisted_and_relayed_witness:
  "truthy (JNum 10) \<and> js_toString (JNum 10) = Some (clientId two_users 1)
   \<and> online (storage two_users)
   \<and> integer_column (JNum 10) = Some 10 \<and> integer_column (JNum 11) = Some 11
   \<and> text_column (driver_text (storage two_users)) (JStr ''hi'') = Some ''hi''
   \<and> \<not> truthy JNull
   \<and> on_message 1 (Some (chat (JNum 10) (JNum 11) (JStr ''hi'') JNull)) two_users =
       two_users\<lparr> storage := (storage two_users)
                               \<lparr> messages := messages (storage two_users) @ [hello_message],
                                 messages_id_seq := messages_id_seq (storage two_users) + 1 \<rparr>,
                  sent := (\<lambda>x. sent two_users x
                            @ (if x = 1 then [SystemFrame ''Message sent successfully''
                                                (Some (msg_id hello_message))] else [])
                            @ (if clients two_users ''11'' = Some x
                               then [MessageFrame hello_message] else [])) \<rparr>
   \<and> clients two_users ''11'' = Some 2
   \<and> messages (storage two_users) = []"
proof -
  let ?p = "chat (JNum 10) (JNum 11) (JStr ''hi'') JNull"
  have h1: "js_get ?p ''type'' = Some (JStr ''chat'')" by (simp add: chat_def)
  have h2: "js_get ?p ''senderId'' = Some (JNum 10)" by (simp add: chat_def)
  have h3: "js_get ?p ''receiverId'' = Some (JNum 11)" by (simp add: chat_def)
  have h4: "js_get ?p ''content'' = Some (JStr ''hi'')" by (simp add: chat_def)
  have h5: "js_get ?p ''exchangeId'' = Some JNull" by (simp add: chat_def)
  have h6: "truthy (JNum 10)" by simp
  have h7: "js_toString (JNum 10) = Some (clientId two_users 1)" by code_simp
  have h8: "online (storage two_users)" by code_simp
  have h9: "integer_column (JNum 10) = Some 10" by (simp add: int4_range_def)
  have h10: "integer_column (JNum 11) = Some 11" by (simp add: int4_range_def)
  have h11: "text_column (driver_text (storage two_users)) (JStr ''hi'') = Some ''hi''" by simp
  have h12: "\<not> truthy JNull \<or> integer_column JNull \<noteq> None" by simp
  have h13: "hello_message =
      \<lparr> msg_id = messages_id_seq (storage two_users), senderId = 10, receiverId = 11,
        exchangeId = (if truthy JNull then integer_column JNull else None),
        content = ''hi'', read = False, msg_createdAt = Some (clock (storage two_users)) \<rparr>"
    by code_simp
  have k: "js_toString (JNum 11) = Some ''11''" by code_simp
  have c: "clients two_users ''11'' = Some 2" by code_simp
  have e: "messages (storage two_users) = []" by code_simp
  from chat_accepted_persisted_and_relayed [OF h1 h2 h3 h4 h5 h6 h7 h8 h9 h10 h11 h12 h13] k
  have "on_message 1 (Some ?p) two_users =
       two_users\<lparr> storage := (storage two_users)
                               \<lparr> messages := messages (storage two_users) @ [hello_message],
                                 messages_id_seq := messages_id_seq (storage two_users) + 1 \<rparr>,
                  sent := (\<lambda>x. sent two_users x
                            @ (if x = 1 then [SystemFrame ''Message sent successfully''
                                                (Some (msg_id hello_message))] else [])
                            @ (if clients two_users ''11'' = Some x
                               then [MessageFrame hello_message] else [])) \<rparr>"
    by auto
  with h6 h7 h8 h9 h10 h11 c e show ?thesis by simp
qed

text \<open>
  Witness for claim C6: a frame of user 10 without a receiver. The insert fails on the
  \<^verbatim>\<open>notNull\<close> column, after the row has drawn the serial 1.
\<close>

theorem chat_persistence_failure_witness:
  "truthy (JNum 10) \<and> js_toString (JNum 10) = Some (clientId two_users 1)
   \<and> createMessage \<lparr> im_senderId = JNum 10, im_receiverId = JUndefined,
          im_content = JStr ''hi'', im_exchangeId = (if truthy JNull then JNull else JNull) \<rparr>
          (storage two_users)
       = Inl (NotNullViolation, (storage two_users)\<lparr> messages_id_seq := 2 \<rparr>)
   \<and> on_message 1 (Some (JObj [(''type'', JStr ''chat''), (''senderId'', JNum 10),
                                (''content'', JStr ''hi''), (''exchangeId'', JNull)])) two_users =
       two_users\<lparr> storage := (storage two_users)\<lparr> messages_id_seq := 2 \<rparr>,
                  sent := (sent two_users)
                   (1 := sent two_users 1 @ [ErrorFrame ''Failed to process message'']) \<rparr>
   \<and> messages_id_seq (storage two_users) = 1"
proof -
  let ?p = "JObj [(''type'', JStr ''chat''), (''senderId'', JNum 10),
                  (''content'', JStr ''hi''), (''exchangeId'', JNull)]"
  have h1: "js_get ?p ''type'' = Some (JStr ''chat'')" by simp
  have h2: "js_get ?p ''senderId'' = Some (JNum 10)" by simp
  have h3: "js_get ?p ''receiverId'' = Some JUndefined" by simp
  have h4: "js_get ?p ''content'' = Some (JStr ''hi'')" by simp
  have h5: "js_get ?p ''exchangeId'' = Some JNull" by simp
  have h6: "truthy (JNum 10)" by simp
  have h7: "js_toString (JNum 10) = Some (clientId two_users 1)" by code_simp
  have s: "online (storage two_users)" "messages_id_seq (storage two_users) = 1"
    by code_simp+
  have h8: "createMessage \<lparr> im_senderId = JNum 10, im_receiverId = JUndefined,
          im_content = JStr ''hi'', im_exchangeId = (if truthy JNull then JNull else JNull) \<rparr>
          (storage two_users)
       = Inl (NotNullViolation, (storage two_users)\<lparr> messages_id_seq := 2 \<rparr>)"
    using s by (simp add: createMessage_def is_null_def int4_range_def)
  from chat_persistence_failure [OF h1 h2 h3 h4 h5 h6 h7 h8] h6 h7 h8 s(2)
  show ?thesis by blast
qed

text \<open>
  Witness for claim C9, amended: the frame with the empty content.
\<close>

theorem persisted_content_is_frame_content_witness:
  "messages (storage (on_message 1 (Some (chat (JNum 10) (JNum 11) (JStr []) JNull)) two_users))
     \<noteq> messages (storage two_users)
   \<and> (\<exists>m. messages (storage (on_message 1 (Some (chat (JNum 10) (JNum 11) (JStr []) JNull))
                                 two_users)) = messages (storage two_users) @ [m]
          \<and> content m = [])"
proof -
  let ?p = "chat (JNum 10) (JNum 11) (JStr []) JNull"
  have h1: "js_get ?p ''type'' = Some (JStr ''chat'')" by (simp add: chat_def)
  have h2: "js_get ?p ''content'' = Some (JStr [])" by (simp add: chat_def)
  have h3: "messages (storage (on_message 1 (Some ?p) two_users)) \<noteq> messages (storage two_users)"
    by code_simp
  from persisted_content_is_frame_content [OF h1 h2 h3] h3 show ?thesis by blast
qed

text \<open>
  Witness for claim C8: exchange 7, which both stores hold, and exchange 8, which they do not.
\<close>

theorem updateExchangeStatus_frame_witness:
  "getExchangeById 7 (exchange_db ''pending'') = Inr (Some (sample_exchange ''pending''))
   \<and> (\<exists>db'. updateExchangeStatus 200 7 ''accepted'' (exchange_db ''pending'')
               = Inr (Some ((sample_exchange ''pending'')
                              \<lparr> status := ''accepted'', updatedAt := Some 200 \<rparr>), db')
          \<and> getExchangeById 7 db'
               = Inr (Some ((sample_exchange ''pending'')
                              \<lparr> status := ''accepted'', updatedAt := Some 200 \<rparr>)))
   \<and> getExchangeById 8 (exchange_db ''pending'') = Inr None
   \<and> updateExchangeStatus 200 8 ''accepted'' (exchange_db ''pending'')
       = Inr (None, exchange_db ''pending'')
   \<and> MemStorage_getExchangeById 7 \<lparr> mem_exchanges = [7 \<mapsto> sample_exchange ''pending''] \<rparr>
       = Some (sample_exchange ''pending'')
   \<and> MemStorage_updateExchangeStatus 200 7 ''accepted''
         \<lparr> mem_exchanges = [7 \<mapsto> sample_exchange ''pending''] \<rparr>
       = (Some ((sample_exchange ''pending'')\<lparr> status := ''accepted'', updatedAt := Some 200 \<rparr>),
          \<lparr> mem_exchanges = [7 \<mapsto> sample_exchange ''pending'']
                 (7 \<mapsto> (sample_exchange ''pending'')
                           \<lparr> status := ''accepted'', updatedAt := Some 200 \<rparr>) \<rparr>)
   \<and> MemStorage_getExchangeById 8 \<lparr> mem_exchanges = [7 \<mapsto> sample_exchange ''pending''] \<rparr> = None
   \<and> MemStorage_updateExchangeStatus 200 8 ''accepted''
         \<lparr> mem_exchanges = [7 \<mapsto> sample_exchange ''pending''] \<rparr>
       = (None, \<lparr> mem_exchanges = [7 \<mapsto> sample_exchange ''pending''] \<rparr>)"
proof -
  let ?m = "\<lparr> mem_exchanges = [7 \<mapsto> sample_exchange ''pending''] \<rparr>"
  have g1: "getExchangeById 7 (exchange_db ''pending'') = Inr (Some (sample_exchange ''pending''))"
    by (simp add: getExchangeById_def exchange_db_def empty_db_def sample_exchange_def)
  have g2: "getExchangeById 8 (exchange_db ''pending'') = Inr None"
    by (simp add: getExchangeById_def exchange_db_def empty_db_def sample_exchange_def)
  have m1: "MemStorage_getExchangeById 7 ?m = Some (sample_exchange ''pending'')"
    by (simp add: MemStorage_getExchangeById_def)
  have m2: "MemStorage_getExchangeById 8 ?m = None"
    by (simp add: MemStorage_getExchangeById_def)
  note t1 = updateExchangeStatus_frame
    [where i = 7 and db = "exchange_db ''pending''" and e = "sample_exchange ''pending''"
       and now = 200 and s = "''accepted''" and m = ?m]
  note t2 = updateExchangeStatus_frame
    [where i = 8 and db = "exchange_db ''pending''" and e = "sample_exchange ''pending''"
       and now = 200 and s = "''accepted''" and m = ?m]
  from t1 g1 m1 have p1: "\<exists>db'. updateExchangeStatus 200 7 ''accepted'' (exchange_db ''pending'')
               = Inr (Some ((sample_exchange ''pending'')
                              \<lparr> status := ''accepted'', updatedAt := Some 200 \<rparr>), db')
          \<and> getExchangeById 7 db'
               = Inr (Some ((sample_exchange ''pending'')
                              \<lparr> status := ''accepted'', updatedAt := Some 200 \<rparr>))"
    by blast
  from t1 m1 have p2: "MemStorage_updateExchangeStatus 200 7 ''accepted'' ?m
       = (Some ((sample_exchange ''pending'')\<lparr> status := ''accepted'', updatedAt := Some 200 \<rparr>),
          \<lparr> mem_exchanges = [7 \<mapsto> sample_exchange ''pending'']
                 (7 \<mapsto> (sample_exchange ''pending'')
                           \<lparr> status := ''accepted'', updatedAt := Some 200 \<rparr>) \<rparr>)"
    by simp
  from t2 g2 have p3: "updateExchangeStatus 200 8 ''accepted'' (exchange_db ''pending'')
       = Inr (None, exchange_db ''pending'')"
    by blast
  from t2 m2 have p4: "MemStorage_updateExchangeStatus 200 8 ''accepted'' ?m = (None, ?m)"
    by blast
  from g1 g2 m1 m2 p1 p2 p3 p4 show ?thesis by blast
qed

text \<open>
  Witness for claim C7, at the pending exchange 7: the requester asks \<^verbatim>\<open>accepted\<close>, a stranger asks
  \<^verbatim>\<open>completed\<close>, the provider asks \<^verbatim>\<open>cancelled\<close>.
\<close>

theorem status_request_authorization_witness:
  "user (status_request 3 (JStr ''accepted'')) = Some 3
   \<and> getExchangeById (params_id (status_request 3 (JStr ''accepted''))) (exchange_db ''pending'')
       = Inr (Some (sample_exchange ''pending''))
   \<and> providerId (sample_exchange ''pending'') \<noteq> 3
   \<and> patch_exchange_status 200 (status_request 3 (JStr ''accepted'')) (exchange_db ''pending'')
       = ((403, Msg ''Only the provider can accept or decline exchanges''), exchange_db ''pending'')
   \<and> requesterId (sample_exchange ''pending'') \<noteq> 9 \<and> providerId (sample_exchange ''pending'') \<noteq> 9
   \<and> patch_exchange_status 200 (status_request 9 (JStr ''completed'')) (exchange_db ''pending'')
       = ((403, Msg ''Only participants can mark exchange as completed''), exchange_db ''pending'')
   \<and> JStr ''cancelled'' \<notin> JStr ` set valid_statuses
   \<and> patch_exchange_status 200 (status_request 2 (JStr ''cancelled'')) (exchange_db ''pending'')
       = ((400, Msg ''Invalid status''), exchange_db ''pending'')"
proof -
  have g: "\<And>u v. getExchangeById (params_id (status_request u v)) (exchange_db ''pending'')
       = Inr (Some (sample_exchange ''pending''))"
    by (simp add: getExchangeById_def exchange_db_def empty_db_def sample_exchange_def
        status_request_def)
  have u: "\<And>u v. user (status_request u v) = Some u" by (simp add: status_request_def)
  have b: "\<And>u v. js_get (body (status_request u v)) ''status'' = Some v"
    by (simp add: status_request_def)
  have n1: "providerId (sample_exchange ''pending'') \<noteq> 3" by (simp add: sample_exchange_def)
  have n2: "requesterId (sample_exchange ''pending'') \<noteq> 9"
    "providerId (sample_exchange ''pending'') \<noteq> 9"
    by (simp_all add: sample_exchange_def)
  have n3: "JStr ''cancelled'' \<notin> JStr ` set valid_statuses"
    by (auto simp: valid_statuses_def)
  have r1: "patch_exchange_status 200 (status_request 3 (JStr ''accepted''))
        (exchange_db ''pending'')
       = ((403, Msg ''Only the provider can accept or decline exchanges''), exchange_db ''pending'')"
    using status_request_authorization [OF u [of 3 "JStr ''accepted''"] g [of 3 "JStr ''accepted''"] b [of 3 "JStr ''accepted''"],
        where now = 200] n1
    by simp
  have r2: "patch_exchange_status 200 (status_request 9 (JStr ''completed''))
        (exchange_db ''pending'')
       = ((403, Msg ''Only participants can mark exchange as completed''), exchange_db ''pending'')"
    using status_request_authorization [OF u [of 9 "JStr ''completed''"] g [of 9 "JStr ''completed''"] b [of 9 "JStr ''completed''"],
        where now = 200] n2
    by simp
  have r3: "patch_exchange_status 200 (status_request 2 (JStr ''cancelled''))
        (exchange_db ''pending'')
       = ((400, Msg ''Invalid status''), exchange_db ''pending'')"
    using status_request_authorization [OF u [of 2 "JStr ''cancelled''"] g [of 2 "JStr ''cancelled''"] b [of 2 "JStr ''cancelled''"],
        where now = 200] n3
    by simp
  from r1 r2 r3 u [of 3 "JStr ''accepted''"] g [of 3 "JStr ''accepted''"] n1 n2 n3
  show ?thesis by simp
qed

text \<open>
  Witness for claim C1, amended, at the completed exchange 7: the provider and then the requester
  ask \<^verbatim>\<open>accepted\<close>.
\<close>

theorem status_request_ignores_current_status_witness:
  "''accepted'' \<in> set valid_statuses
   \<and> fst (patch_exchange_status 200 (status_request 2 (JStr ''accepted''))
             (exchange_db ''completed''))
       = (200, ExchangeJson (Some ((sample_exchange ''completed'')
                                     \<lparr> status := ''accepted'', updatedAt := Some 200 \<rparr>)))
   \<and> fst (fst (patch_exchange_status 200 (status_request 3 (JStr ''accepted''))
                  (exchange_db ''completed''))) = 403
   \<and> snd (patch_exchange_status 200 (status_request 3 (JStr ''accepted''))
             (exchange_db ''completed'')) = exchange_db ''completed''"
proof -
  have g: "\<And>u v. getExchangeById (params_id (status_request u v)) (exchange_db ''completed'')
       = Inr (Some (sample_exchange ''completed''))"
    by (simp add: getExchangeById_def exchange_db_def empty_db_def sample_exchange_def
        status_request_def)
  have u: "\<And>u v. user (status_request u v) = Some u" by (simp add: status_request_def)
  have b: "\<And>u s. js_get (body (status_request u (JStr s))) ''status'' = Some (JStr s)"
    by (simp add: status_request_def)
  have v: "''accepted'' \<in> set valid_statuses" by (simp add: valid_statuses_def)
  have p: "providerId (sample_exchange ''completed'') = 2" by (simp add: sample_exchange_def)
  from status_request_ignores_current_status [OF u [of 2 "JStr ''accepted''"] g [of 2 "JStr ''accepted''"] b [of 2 "''accepted''"] v, where now = 200]
    status_request_ignores_current_status [OF u [of 3 "JStr ''accepted''"] g [of 3 "JStr ''accepted''"] b [of 3 "''accepted''"] v, where now = 200] v p
  show ?thesis by simp
qed

end
